theory Spec2Isabelle
  imports Complex_Main "HOL-Library.Word"
begin

unbundle bit_operations_syntax

section \<open>Data model of \<^verbatim>\<open>VulkanTest/main.cpp\<close>\<close>

text \<open>
  The program is one class, \<^verbatim>\<open>HelloTriangleApplication\<close>, over the Vulkan and GLFW
  libraries. The structs of the Vulkan headers are records holding the fields the
  program reads or writes; \<^verbatim>\<open>uint32_t\<close> is a 32-bit word. The numeric values of the
  Vulkan enumerators are those of \<^verbatim>\<open>vulkan_core.h\<close>.
\<close>

type_synonym uint32_t = "32 word"

definition UINT32_MAX :: uint32_t where
  "UINT32_MAX = 0xFFFFFFFF"

definition VK_QUEUE_GRAPHICS_BIT :: uint32_t where
  "VK_QUEUE_GRAPHICS_BIT = 0x00000001"

definition VK_FORMAT_B8G8R8A8_SRGB :: int where
  "VK_FORMAT_B8G8R8A8_SRGB = 50"

definition VK_COLOR_SPACE_SRGB_NONLINEAR_KHR :: int where
  "VK_COLOR_SPACE_SRGB_NONLINEAR_KHR = 0"

datatype VkPresentModeKHR =
    VK_PRESENT_MODE_IMMEDIATE_KHR
  | VK_PRESENT_MODE_MAILBOX_KHR
  | VK_PRESENT_MODE_FIFO_KHR
  | VK_PRESENT_MODE_FIFO_RELAXED_KHR
  | VK_PRESENT_MODE_SHARED_DEMAND_REFRESH_KHR
  | VK_PRESENT_MODE_SHARED_CONTINUOUS_REFRESH_KHR

record VkExtent2D =
  width :: uint32_t
  height :: uint32_t

record VkSurfaceCapabilitiesKHR =
  minImageCount :: uint32_t
  maxImageCount :: uint32_t
  currentExtent :: VkExtent2D
  minImageExtent :: VkExtent2D
  maxImageExtent :: VkExtent2D

record VkSurfaceFormatKHR =
  format :: int
  colorSpace :: int

record VkQueueFamilyProperties =
  queueFlags :: uint32_t

text \<open>
  A physical device is a handle; what the program learns about it comes from the
  driver's queries, which are the fields here:
  \<^verbatim>\<open>vkGetPhysicalDeviceQueueFamilyProperties\<close>,
  \<^verbatim>\<open>vkGetPhysicalDeviceSurfaceSupportKHR\<close> (per queue family index, for the one surface
  of the application), \<^verbatim>\<open>vkEnumerateDeviceExtensionProperties\<close> and the three
  surface queries of \<^verbatim>\<open>querySwapChainSupport\<close>.
\<close>

record PhysicalDevice =
  queueFamilyProperties :: "VkQueueFamilyProperties list"
  surfaceSupport :: "nat \<Rightarrow> bool"
  extensionNames :: "string list"
  capabilities :: VkSurfaceCapabilitiesKHR
  formats :: "VkSurfaceFormatKHR list"
  presentModes :: "VkPresentModeKHR list"

text \<open>
  \<^verbatim>\<open>struct QueueFamilyIndices\<close>: two \<^verbatim>\<open>std::optional<uint32_t>\<close>. The loop counter
  \<^verbatim>\<open>i\<close> of \<^verbatim>\<open>findQueueFamilies\<close> is an \<^verbatim>\<open>int\<close> that stays below the
  \<^verbatim>\<open>uint32_t\<close> family count, so an index is a natural number here.
\<close>

record QueueFamilyIndices =
  graphicsFamily :: "nat option"
  presentFamily :: "nat option"

definition isComplete :: "QueueFamilyIndices \<Rightarrow> bool" where
  "isComplete indices =
     (graphicsFamily indices \<noteq> None \<and> presentFamily indices \<noteq> None)"

text \<open>
  A member function ends early in one of three ways. Two are C++ exceptions: the
  \<^verbatim>\<open>std::runtime_error\<close> thrown by the program with its message, and the
  \<^verbatim>\<open>std::bad_optional_access\<close> that \<^verbatim>\<open>std::optional::value()\<close> throws on an empty
  optional. The third is no exception: the program does something whose behaviour C++
  leaves undefined (a write past the end of an array, a read of the first element of an
  empty vector), and nothing is known about it from then on.
\<close>

datatype error = runtime_error string | bad_optional_access | undefined_behaviour

definition optional_value :: "'a option \<Rightarrow> error + 'a" where
  "optional_value x = (case x of None \<Rightarrow> Inl bad_optional_access | Some v \<Rightarrow> Inr v)"

section \<open>Swap chain settings\<close>

text \<open>
  \<^verbatim>\<open>chooseSwapSurfaceFormat\<close>: the first candidate with the preferred format and
  colour space, else \<^verbatim>\<open>availableFormats[0]\<close>. Indexing an empty vector is undefined
  behaviour in C++; the model returns \<open>None\<close> there.
\<close>

fun chooseSwapSurfaceFormat_loop :: "VkSurfaceFormatKHR list \<Rightarrow> VkSurfaceFormatKHR option" where
  "chooseSwapSurfaceFormat_loop [] = None"
| "chooseSwapSurfaceFormat_loop (availableFormat # rest) =
     (if format availableFormat = VK_FORMAT_B8G8R8A8_SRGB
         \<and> colorSpace availableFormat = VK_COLOR_SPACE_SRGB_NONLINEAR_KHR
      then Some availableFormat
      else chooseSwapSurfaceFormat_loop rest)"

definition chooseSwapSurfaceFormat :: "VkSurfaceFormatKHR list \<Rightarrow> VkSurfaceFormatKHR option" where
  "chooseSwapSurfaceFormat availableFormats =
     (case chooseSwapSurfaceFormat_loop availableFormats of
        Some availableFormat \<Rightarrow> Some availableFormat
      | None \<Rightarrow> (case availableFormats of [] \<Rightarrow> None | first # _ \<Rightarrow> Some first))"

text \<open>\<^verbatim>\<open>chooseSwapPresentMode\<close>: mailbox when it is a candidate, else FIFO.\<close>

fun chooseSwapPresentMode :: "VkPresentModeKHR list \<Rightarrow> VkPresentModeKHR" where
  "chooseSwapPresentMode [] = VK_PRESENT_MODE_FIFO_KHR"
| "chooseSwapPresentMode (availablePresentMode # rest) =
     (if availablePresentMode = VK_PRESENT_MODE_MAILBOX_KHR
      then availablePresentMode
      else chooseSwapPresentMode rest)"

text \<open>
  \<^verbatim>\<open>chooseSwapExtent\<close>. The second argument is what \<^verbatim>\<open>glfwGetFramebufferSize\<close>
  stores in the two \<^verbatim>\<open>int\<close>s; \<^verbatim>\<open>static_cast<uint32_t>\<close> is \<open>word_of_int\<close>.
\<close>

definition chooseSwapExtent :: "VkSurfaceCapabilitiesKHR \<Rightarrow> int \<times> int \<Rightarrow> VkExtent2D" where
  "chooseSwapExtent caps framebufferSize =
     (if width (currentExtent caps) \<noteq> UINT32_MAX then currentExtent caps
      else
        (let actualExtent =
               \<lparr>width = word_of_int (fst framebufferSize),
                height = word_of_int (snd framebufferSize)\<rparr>;
             actualExtent = actualExtent
               \<lparr>width := max (width (minImageExtent caps))
                              (min (width (maxImageExtent caps)) (width actualExtent))\<rparr>;
             actualExtent = actualExtent
               \<lparr>height := max (height (minImageExtent caps))
                               (min (height (maxImageExtent caps)) (height actualExtent))\<rparr>
         in actualExtent))"

text \<open>
  The image count that \<^verbatim>\<open>createSwapChain\<close> writes to
  \<^verbatim>\<open>createInfo.minImageCount\<close>; the addition is \<^verbatim>\<open>uint32_t\<close> addition and wraps.
\<close>

definition swapChainImageCount :: "VkSurfaceCapabilitiesKHR \<Rightarrow> uint32_t" where
  "swapChainImageCount caps =
     (let imageCount = minImageCount caps + 1
      in if maxImageCount caps > 0 \<and> imageCount > maxImageCount caps
         then maxImageCount caps
         else imageCount)"

text \<open>
  The specification's words for the two numeric rules: \<open>clamp (v, lo, hi)\<close> brings
  \<open>v\<close> into the interval from \<open>lo\<close> to \<open>hi\<close>, and a maximum image count of 0 stands
  for no upper bound.
\<close>

definition spec_clamp :: "uint32_t \<Rightarrow> uint32_t \<Rightarrow> uint32_t \<Rightarrow> uint32_t" where
  "spec_clamp v lo hi = max lo (min v hi)"

definition spec_upper_bound :: "VkSurfaceCapabilitiesKHR \<Rightarrow> uint32_t" where
  "spec_upper_bound caps =
     (if maxImageCount caps = 0 then UINT32_MAX else maxImageCount caps)"

definition spec_imageCount :: "VkSurfaceCapabilitiesKHR \<Rightarrow> uint32_t" where
  "spec_imageCount caps =
     spec_clamp (minImageCount caps + 1) (minImageCount caps) (spec_upper_bound caps)"

definition preferredSurfaceFormat :: VkSurfaceFormatKHR where
  "preferredSurfaceFormat =
     \<lparr>format = VK_FORMAT_B8G8R8A8_SRGB, colorSpace = VK_COLOR_SPACE_SRGB_NONLINEAR_KHR\<rparr>"

section \<open>Queue families and the physical device\<close>

text \<open>
  The loop of \<^verbatim>\<open>findQueueFamilies\<close>, with the counter \<^verbatim>\<open>i\<close> and the indices
  found so far. Each assignment overwrites what an earlier iteration stored; the
  \<^verbatim>\<open>break\<close> leaves the loop when both optionals hold a value.
\<close>

fun findQueueFamilies_loop ::
  "PhysicalDevice \<Rightarrow> nat \<Rightarrow> QueueFamilyIndices \<Rightarrow> VkQueueFamilyProperties list
     \<Rightarrow> QueueFamilyIndices" where
  "findQueueFamilies_loop device i indices [] = indices"
| "findQueueFamilies_loop device i indices (queueFamily # rest) =
     (let indices = (if queueFlags queueFamily AND VK_QUEUE_GRAPHICS_BIT \<noteq> 0
                     then indices\<lparr>graphicsFamily := Some i\<rparr> else indices);
          presentSupport = surfaceSupport device i;
          indices = (if presentSupport
                     then indices\<lparr>presentFamily := Some i\<rparr> else indices)
      in if isComplete indices then indices
         else findQueueFamilies_loop device (i + 1) indices rest)"

definition findQueueFamilies :: "PhysicalDevice \<Rightarrow> QueueFamilyIndices" where
  "findQueueFamilies device =
     findQueueFamilies_loop device 0 \<lparr>graphicsFamily = None, presentFamily = None\<rparr>
       (queueFamilyProperties device)"

definition deviceExtensions :: "string list" where
  "deviceExtensions = [''VK_KHR_swapchain'']"

text \<open>
  \<^verbatim>\<open>checkDeviceExtensionSupport\<close> erases every available name from the set of
  required names and asks whether the set is empty.
\<close>

definition checkDeviceExtensionSupport :: "PhysicalDevice \<Rightarrow> bool" where
  "checkDeviceExtensionSupport device =
     (fold (\<lambda>extension requiredExtensions. removeAll extension requiredExtensions)
        (extensionNames device) (remdups deviceExtensions) = [])"

definition isDeviceSuitable :: "PhysicalDevice \<Rightarrow> bool" where
  "isDeviceSuitable device =
     (let indices = findQueueFamilies device;
          extensionsSupported = checkDeviceExtensionSupport device;
          swapChainAdequate =
            (if extensionsSupported
             then formats device \<noteq> [] \<and> presentModes device \<noteq> []
             else False)
      in isComplete indices \<and> extensionsSupported \<and> swapChainAdequate)"

fun pickPhysicalDevice_loop :: "PhysicalDevice list \<Rightarrow> PhysicalDevice option" where
  "pickPhysicalDevice_loop [] = None"
| "pickPhysicalDevice_loop (device # rest) =
     (if isDeviceSuitable device then Some device else pickPhysicalDevice_loop rest)"

definition pickPhysicalDevice :: "PhysicalDevice list \<Rightarrow> error + PhysicalDevice" where
  "pickPhysicalDevice devices =
     (if length devices = 0
      then Inl (runtime_error ''failed to find GPUs with Vulkan support!'')
      else case pickPhysicalDevice_loop devices of
             Some physicalDevice \<Rightarrow> Inr physicalDevice
           | None \<Rightarrow> Inl (runtime_error ''failed to find a suitable GPU!''))"

section \<open>What the program passes to the creation calls\<close>

record VkDeviceQueueCreateInfo =
  queueFamilyIndex :: nat
  queueCount :: nat
  pQueuePriorities :: real

record VkDeviceCreateInfo =
  pQueueCreateInfos :: "VkDeviceQueueCreateInfo list"
  queueCreateInfoCount :: nat
  ppEnabledExtensionNames :: "string list"
  ppEnabledLayerNames :: "string list"

definition validationLayers :: "string list" where
  "validationLayers = [''VK_LAYER_KHRONOS_validation'']"

text \<open>
  \<^verbatim>\<open>createLogicalDevice\<close> up to the call of \<^verbatim>\<open>vkCreateDevice\<close>:
  \<^verbatim>\<open>uniqueQueueFamilies\<close> is a \<^verbatim>\<open>std::vector<uint32_t>\<close> initialised with the two
  indices, and the loop pushes one record for each of its elements.
\<close>

definition uniqueQueueFamilies :: "QueueFamilyIndices \<Rightarrow> error + nat list" where
  "uniqueQueueFamilies indices =
     (case optional_value (graphicsFamily indices) of
        Inl e \<Rightarrow> Inl e
      | Inr g \<Rightarrow>
          (case optional_value (presentFamily indices) of
             Inl e \<Rightarrow> Inl e
           | Inr p \<Rightarrow> Inr [g, p]))"

fun queueCreateInfos_loop ::
  "real \<Rightarrow> VkDeviceQueueCreateInfo list \<Rightarrow> nat list \<Rightarrow> VkDeviceQueueCreateInfo list" where
  "queueCreateInfos_loop queuePriority queueCreateInfos [] = queueCreateInfos"
| "queueCreateInfos_loop queuePriority queueCreateInfos (queueFamily # rest) =
     queueCreateInfos_loop queuePriority
       (queueCreateInfos @
          [\<lparr>queueFamilyIndex = queueFamily, queueCount = 1,
            pQueuePriorities = queuePriority\<rparr>])
       rest"

definition deviceCreateInfo :: "bool \<Rightarrow> PhysicalDevice \<Rightarrow> error + VkDeviceCreateInfo" where
  "deviceCreateInfo enableValidationLayers physicalDevice =
     (let indices = findQueueFamilies physicalDevice
      in case uniqueQueueFamilies indices of
           Inl e \<Rightarrow> Inl e
         | Inr families \<Rightarrow>
             (let queuePriority = 1;
                  queueCreateInfos = queueCreateInfos_loop queuePriority [] families
              in Inr \<lparr>pQueueCreateInfos = queueCreateInfos,
                      queueCreateInfoCount = length queueCreateInfos,
                      ppEnabledExtensionNames = deviceExtensions,
                      ppEnabledLayerNames =
                        (if enableValidationLayers then validationLayers else [])\<rparr>))"

text \<open>
  The queue family part of \<^verbatim>\<open>createSwapChain\<close>: both \<^verbatim>\<open>value()\<close> calls come
  first, then the comparison of the two optionals decides the sharing mode.
\<close>

datatype VkSharingMode = VK_SHARING_MODE_EXCLUSIVE | VK_SHARING_MODE_CONCURRENT

record SwapchainSharing =
  imageSharingMode :: VkSharingMode
  queueFamilyIndexCount :: nat
  pQueueFamilyIndices :: "nat list"

definition swapChainSharing :: "PhysicalDevice \<Rightarrow> error + SwapchainSharing" where
  "swapChainSharing physicalDevice =
     (let indices = findQueueFamilies physicalDevice
      in case optional_value (graphicsFamily indices) of
           Inl e \<Rightarrow> Inl e
         | Inr g \<Rightarrow>
             (case optional_value (presentFamily indices) of
                Inl e \<Rightarrow> Inl e
              | Inr p \<Rightarrow>
                  (let queueFamilyIndices = [g, p]
                   in if graphicsFamily indices \<noteq> presentFamily indices
                      then Inr \<lparr>imageSharingMode = VK_SHARING_MODE_CONCURRENT,
                                queueFamilyIndexCount = 2,
                                pQueueFamilyIndices = queueFamilyIndices\<rparr>
                      else Inr \<lparr>imageSharingMode = VK_SHARING_MODE_EXCLUSIVE,
                                queueFamilyIndexCount = 0,
                                pQueueFamilyIndices = []\<rparr>)))"

text \<open>The queue family that \<^verbatim>\<open>createCommandPool\<close> writes to \<^verbatim>\<open>poolInfo\<close>.\<close>

definition commandPoolQueueFamily :: "PhysicalDevice \<Rightarrow> error + nat" where
  "commandPoolQueueFamily physicalDevice =
     (let queueFamilyIndices = findQueueFamilies physicalDevice
      in optional_value (graphicsFamily queueFamilyIndices))"

section \<open>The run of the application\<close>

text \<open>
  The program acts on the world through calls of GLFW and Vulkan. A run is observed
  as the list of those calls, in order: the calls that create an object, the calls
  that destroy one, the allocation and recording of the command buffers, the polling
  of events, and the two calls by which a Vulkan program draws, \<^verbatim>\<open>vkQueueSubmit\<close> and
  \<^verbatim>\<open>vkQueuePresentKHR\<close>. Queries that only read (the enumerations, the surface
  queries, \<^verbatim>\<open>vkGetDeviceQueue\<close>) leave no event.
\<close>

datatype shader = vert | frag

datatype object =
    GlfwLibrary
  | Window
  | Instance
  | DebugMessenger
  | Surface
  | LogicalDevice
  | Swapchain
  | ImageView nat
  | RenderPass
  | ShaderModule shader
  | PipelineLayout
  | Pipeline
  | Framebuffer nat
  | CommandPool

datatype event =
    Create object
  | Destroy object
  | AllocateCommandBuffers nat
  | RecordCommandBuffer nat
  | PollEvents
  | QueueSubmit
  | QueuePresent

text \<open>
  What the platform answers. \<^verbatim>\<open>enableValidationLayers\<close> is the compile-time
  constant set by \<^verbatim>\<open>NDEBUG\<close>. A field ending in \<open>_ok\<close> says that the call returns
  \<^verbatim>\<open>VK_SUCCESS\<close> (for a file, that it opens). The two debug messenger functions are
  looked up by name with \<^verbatim>\<open>vkGetInstanceProcAddr\<close>; both belong to one extension, and
  \<open>debugUtilsFunctionsFound\<close> says that the lookups succeed.
  \<open>instanceExtensionCount\<close> is the number of instance extensions that
  \<^verbatim>\<open>vkEnumerateInstanceExtensionProperties\<close> reports.
  \<open>windowShouldClose k\<close> is the answer of \<^verbatim>\<open>glfwWindowShouldClose\<close> at the (k+1)-th
  test of the loop condition.
\<close>

record Environment =
  enableValidationLayers :: bool
  instanceExtensionCount :: nat
  availableLayers :: "string list"
  vkCreateInstance_ok :: bool
  debugUtilsFunctionsFound :: bool
  vkCreateDebugUtilsMessengerEXT_ok :: bool
  glfwCreateWindowSurface_ok :: bool
  physicalDevices :: "PhysicalDevice list"
  vkCreateDevice_ok :: bool
  framebufferSize :: "int \<times> int"
  vkCreateSwapchainKHR_ok :: bool
  swapChainImages :: nat
  vkCreateImageView_ok :: "nat \<Rightarrow> bool"
  vkCreateRenderPass_ok :: bool
  readFile_ok :: "shader \<Rightarrow> bool"
  vkCreateShaderModule_ok :: "shader \<Rightarrow> bool"
  vkCreatePipelineLayout_ok :: bool
  vkCreateGraphicsPipelines_ok :: bool
  vkCreateFramebuffer_ok :: "nat \<Rightarrow> bool"
  vkCreateCommandPool_ok :: bool
  vkAllocateCommandBuffers_ok :: bool
  vkBeginCommandBuffer_ok :: "nat \<Rightarrow> bool"
  vkEndCommandBuffer_ok :: "nat \<Rightarrow> bool"
  windowShouldClose :: "nat \<Rightarrow> bool"

text \<open>
  A member function yields the events of its calls and either its result or the
  exception that ended it; the events before a \<^verbatim>\<open>throw\<close> are kept.
\<close>

type_synonym 'a action = "event list \<times> (error + 'a)"

definition emit :: "event \<Rightarrow> unit action" where
  "emit e = ([e], Inr ())"

definition throw :: "string \<Rightarrow> 'a action" where
  "throw msg = ([], Inl (runtime_error msg))"

definition nothing :: "unit action" where
  "nothing = ([], Inr ())"

definition andThen :: "'a action \<Rightarrow> ('a \<Rightarrow> 'b action) \<Rightarrow> 'b action" where
  "andThen m f =
     (case m of
        (t, Inl e) \<Rightarrow> (t, Inl e)
      | (t, Inr a) \<Rightarrow> (case f a of (t', r) \<Rightarrow> (t @ t', r)))"

text \<open>
  \<^verbatim>\<open>printExtensions\<close> asks for the number of instance extensions, prints it, and
  then lets the driver write that many entries into a local array of 32 entries; only
  the loop that prints the entries stops at 32. With more than 32 extensions the second
  call writes past the end of the array. The printing goes to the standard output and
  leaves no event.
\<close>

definition printExtensions :: "Environment \<Rightarrow> unit action" where
  "printExtensions env =
     (if instanceExtensionCount env > 32 then ([], Inl undefined_behaviour) else nothing)"

definition initWindow :: "unit action" where
  "initWindow = andThen (emit (Create GlfwLibrary)) (\<lambda>_. emit (Create Window))"

fun layerFound :: "string \<Rightarrow> string list \<Rightarrow> bool" where
  "layerFound layerName [] = False"
| "layerFound layerName (layerProperties # rest) =
     (if layerName = layerProperties then True else layerFound layerName rest)"

fun checkValidationLayerSupport_loop :: "string list \<Rightarrow> string list \<Rightarrow> bool" where
  "checkValidationLayerSupport_loop available [] = True"
| "checkValidationLayerSupport_loop available (layerName # rest) =
     (if \<not> layerFound layerName available then False
      else checkValidationLayerSupport_loop available rest)"

definition checkValidationLayerSupport :: "Environment \<Rightarrow> bool" where
  "checkValidationLayerSupport env =
     checkValidationLayerSupport_loop (availableLayers env) validationLayers"

definition createInstance :: "Environment \<Rightarrow> unit action" where
  "createInstance env =
     (if enableValidationLayers env \<and> \<not> checkValidationLayerSupport env
      then throw ''validation layers requested, but not available!''
      else if vkCreateInstance_ok env then emit (Create Instance)
      else throw ''failed to create instance!'')"

definition setupDebugMessenger :: "Environment \<Rightarrow> unit action" where
  "setupDebugMessenger env =
     (if \<not> enableValidationLayers env then nothing
      else if debugUtilsFunctionsFound env \<and> vkCreateDebugUtilsMessengerEXT_ok env
      then emit (Create DebugMessenger)
      else throw ''failed to set up debug messenger!'')"

definition createSurface :: "Environment \<Rightarrow> unit action" where
  "createSurface env =
     (if glfwCreateWindowSurface_ok env then emit (Create Surface)
      else throw ''failed to create window surface!'')"

text \<open>
  \<^verbatim>\<open>createLogicalDevice\<close>. After \<^verbatim>\<open>vkCreateDevice\<close> the two calls of
  \<^verbatim>\<open>vkGetDeviceQueue\<close> read \<^verbatim>\<open>value()\<close> of the same two optionals again, which
  have held a value since \<^verbatim>\<open>uniqueQueueFamilies\<close> was built.
\<close>

definition createLogicalDevice :: "Environment \<Rightarrow> PhysicalDevice \<Rightarrow> unit action" where
  "createLogicalDevice env physicalDevice =
     (case deviceCreateInfo (enableValidationLayers env) physicalDevice of
        Inl e \<Rightarrow> ([], Inl e)
      | Inr createInfo \<Rightarrow>
          if vkCreateDevice_ok env then emit (Create LogicalDevice)
          else throw ''failed to create logical device!'')"

text \<open>
  \<^verbatim>\<open>createSwapChain\<close> returns the number of images that
  \<^verbatim>\<open>vkGetSwapchainImagesKHR\<close> reports, the size of \<^verbatim>\<open>swapChainImages\<close>. Reading
  \<^verbatim>\<open>availableFormats[0]\<close> of an empty vector is undefined behaviour, which the
  program never reaches after \<^verbatim>\<open>pickPhysicalDevice\<close>.
\<close>

definition createSwapChain :: "Environment \<Rightarrow> PhysicalDevice \<Rightarrow> nat action" where
  "createSwapChain env physicalDevice =
     (case chooseSwapSurfaceFormat (formats physicalDevice) of
        None \<Rightarrow> ([], Inl undefined_behaviour)
      | Some surfaceFormat \<Rightarrow>
          (let presentMode = chooseSwapPresentMode (presentModes physicalDevice);
               extent = chooseSwapExtent (capabilities physicalDevice) (framebufferSize env);
               imageCount = swapChainImageCount (capabilities physicalDevice)
           in case swapChainSharing physicalDevice of
                Inl e \<Rightarrow> ([], Inl e)
              | Inr sharing \<Rightarrow>
                  if vkCreateSwapchainKHR_ok env
                  then andThen (emit (Create Swapchain)) (\<lambda>_. ([], Inr (swapChainImages env)))
                  else throw ''failed to create swap chain!''))"

fun createImageviews_loop :: "Environment \<Rightarrow> nat list \<Rightarrow> unit action" where
  "createImageviews_loop env [] = nothing"
| "createImageviews_loop env (i # rest) =
     (if vkCreateImageView_ok env i
      then andThen (emit (Create (ImageView i))) (\<lambda>_. createImageviews_loop env rest)
      else throw ''failed to create image views!'')"

definition createImageviews :: "Environment \<Rightarrow> nat \<Rightarrow> unit action" where
  "createImageviews env n = createImageviews_loop env [0..<n]"

definition createRenderPass :: "Environment \<Rightarrow> unit action" where
  "createRenderPass env =
     (if vkCreateRenderPass_ok env then emit (Create RenderPass)
      else throw ''failed to create render pass!'')"

definition readFile :: "Environment \<Rightarrow> shader \<Rightarrow> unit action" where
  "readFile env s = (if readFile_ok env s then nothing else throw ''failed to open file!'')"

definition createShaderModule :: "Environment \<Rightarrow> shader \<Rightarrow> unit action" where
  "createShaderModule env s =
     (if vkCreateShaderModule_ok env s then emit (Create (ShaderModule s))
      else throw ''failed to create shader module!'')"

definition createGraphicsPipeline :: "Environment \<Rightarrow> unit action" where
  "createGraphicsPipeline env =
     andThen (readFile env vert) (\<lambda>_.
     andThen (readFile env frag) (\<lambda>_.
     andThen (createShaderModule env vert) (\<lambda>_.
     andThen (createShaderModule env frag) (\<lambda>_.
     andThen (if vkCreatePipelineLayout_ok env then emit (Create PipelineLayout)
              else throw ''failed to create pipeline layout!'') (\<lambda>_.
     andThen (if vkCreateGraphicsPipelines_ok env then emit (Create Pipeline)
              else throw ''failed to create graphics pipeline!'') (\<lambda>_.
     andThen (emit (Destroy (ShaderModule frag))) (\<lambda>_.
     emit (Destroy (ShaderModule vert)))))))))"

fun createFramebuffers_loop :: "Environment \<Rightarrow> nat list \<Rightarrow> unit action" where
  "createFramebuffers_loop env [] = nothing"
| "createFramebuffers_loop env (i # rest) =
     (if vkCreateFramebuffer_ok env i
      then andThen (emit (Create (Framebuffer i))) (\<lambda>_. createFramebuffers_loop env rest)
      else throw ''failed to create framebuffer!'')"

definition createFramebuffers :: "Environment \<Rightarrow> nat \<Rightarrow> unit action" where
  "createFramebuffers env n = createFramebuffers_loop env [0..<n]"

definition createCommandPool :: "Environment \<Rightarrow> PhysicalDevice \<Rightarrow> unit action" where
  "createCommandPool env physicalDevice =
     (case commandPoolQueueFamily physicalDevice of
        Inl e \<Rightarrow> ([], Inl e)
      | Inr family \<Rightarrow>
          if vkCreateCommandPool_ok env then emit (Create CommandPool)
          else throw ''failed to create command pool!'')"

fun createCommandBuffers_loop :: "Environment \<Rightarrow> nat list \<Rightarrow> unit action" where
  "createCommandBuffers_loop env [] = nothing"
| "createCommandBuffers_loop env (i # rest) =
     (if \<not> vkBeginCommandBuffer_ok env i
      then throw ''failed to begin recording command buffer!''
      else if \<not> vkEndCommandBuffer_ok env i
      then throw ''failed to record command buffer!''
      else andThen (emit (RecordCommandBuffer i)) (\<lambda>_. createCommandBuffers_loop env rest))"

definition createCommandBuffers :: "Environment \<Rightarrow> nat \<Rightarrow> unit action" where
  "createCommandBuffers env n =
     (if vkAllocateCommandBuffers_ok env
      then andThen (emit (AllocateCommandBuffers n))
             (\<lambda>_. createCommandBuffers_loop env [0..<n])
      else throw ''failed to allocate command buffer!'')"

text \<open>
  \<^verbatim>\<open>initVulkan\<close>, in the order of the source. The result is the number of swap
  chain images, which is the size of \<^verbatim>\<open>swapChainImageViews\<close> and of
  \<^verbatim>\<open>swapChainFramebuffers\<close> from then on.
\<close>

definition initVulkan :: "Environment \<Rightarrow> nat action" where
  "initVulkan env =
     andThen (printExtensions env) (\<lambda>_.
     andThen (createInstance env) (\<lambda>_.
     andThen (setupDebugMessenger env) (\<lambda>_.
     andThen (createSurface env) (\<lambda>_.
     andThen ([], pickPhysicalDevice (physicalDevices env)) (\<lambda>physicalDevice.
     andThen (createLogicalDevice env physicalDevice) (\<lambda>_.
     andThen (createSwapChain env physicalDevice) (\<lambda>n.
     andThen (createImageviews env n) (\<lambda>_.
     andThen (createRenderPass env) (\<lambda>_.
     andThen (createGraphicsPipeline env) (\<lambda>_.
     andThen (createFramebuffers env n) (\<lambda>_.
     andThen (createCommandPool env physicalDevice) (\<lambda>_.
     andThen (createCommandBuffers env n) (\<lambda>_.
     ([], Inr n))))))))))))))"

text \<open>
  \<^verbatim>\<open>mainLoop\<close> may run forever. The model runs it for at most \<open>fuel\<close> tests of the
  loop condition, starting at test number \<open>k\<close>, and says whether the loop was left.
\<close>

fun mainLoop :: "nat \<Rightarrow> Environment \<Rightarrow> nat \<Rightarrow> event list \<times> bool" where
  "mainLoop 0 env k = ([], False)"
| "mainLoop (Suc fuel) env k =
     (if windowShouldClose env k then ([], True)
      else (case mainLoop fuel env (Suc k) of (t, left) \<Rightarrow> (PollEvents # t, left)))"

definition cleanup :: "Environment \<Rightarrow> nat \<Rightarrow> event list" where
  "cleanup env n =
     [Destroy CommandPool]
     @ map (\<lambda>i. Destroy (Framebuffer i)) [0..<n]
     @ [Destroy Pipeline, Destroy PipelineLayout, Destroy RenderPass]
     @ map (\<lambda>i. Destroy (ImageView i)) [0..<n]
     @ [Destroy Swapchain, Destroy LogicalDevice]
     @ (if enableValidationLayers env \<and> debugUtilsFunctionsFound env
        then [Destroy DebugMessenger] else [])
     @ [Destroy Surface, Destroy Instance, Destroy Window, Destroy GlfwLibrary]"

text \<open>
  How a run stands after \<open>fuel\<close> tests of the loop condition: \<^verbatim>\<open>run()\<close> has returned,
  an exception has left it, the loop is still running, or the behaviour of the program
  has become undefined.
\<close>

datatype run_status = Returned | Threw error | StillLooping | Undefined

definition startup :: "Environment \<Rightarrow> nat action" where
  "startup env = andThen initWindow (\<lambda>_. initVulkan env)"

definition run :: "nat \<Rightarrow> Environment \<Rightarrow> event list \<times> run_status" where
  "run fuel env =
     (case startup env of
        (t, Inl e) \<Rightarrow> (t, if e = undefined_behaviour then Undefined else Threw e)
      | (t, Inr n) \<Rightarrow>
          (case mainLoop fuel env 0 of
             (t', False) \<Rightarrow> (t @ t', StillLooping)
           | (t', True) \<Rightarrow> (t @ t' @ cleanup env n, Returned)))"

text \<open>
  \<^verbatim>\<open>main\<close> catches the exception that leaves \<^verbatim>\<open>run()\<close>, writes its \<^verbatim>\<open>what()\<close> to
  \<^verbatim>\<open>std::cerr\<close> and returns the failure status. The result is what was written to
  \<^verbatim>\<open>std::cerr\<close> with the exit status, or that the process is still running, or that
  its behaviour is undefined. \<^verbatim>\<open>what()\<close> belongs to the two exceptions; for a
  \<^verbatim>\<open>bad_optional_access\<close> it is the text of the C++ library.
\<close>

definition EXIT_SUCCESS :: int where
  "EXIT_SUCCESS = 0"

definition EXIT_FAILURE :: int where
  "EXIT_FAILURE = 1"

fun what :: "error \<Rightarrow> string" where
  "what (runtime_error msg) = msg"
| "what bad_optional_access = ''bad optional access''"

datatype process_result = Exited "string list" int | Running | UndefinedBehaviour

definition main :: "nat \<Rightarrow> Environment \<Rightarrow> process_result" where
  "main fuel env =
     (case run fuel env of
        (t, Returned) \<Rightarrow> Exited [] EXIT_SUCCESS
      | (t, Threw e) \<Rightarrow> Exited [what e] EXIT_FAILURE
      | (t, StillLooping) \<Rightarrow> Running
      | (t, Undefined) \<Rightarrow> UndefinedBehaviour)"

section \<open>Notions used to state the properties\<close>

text \<open>
  The specification's words for the swap extent. The current extent is defined when it
  is not the sentinel, the extent whose width and height are both the largest
  \<^verbatim>\<open>uint32_t\<close>; the framebuffer size, two \<^verbatim>\<open>int\<close>s, is clamped component-wise between
  the minimum and the maximum image extent.
\<close>

definition spec_extentDefined :: "VkExtent2D \<Rightarrow> bool" where
  "spec_extentDefined e = (\<not> (width e = UINT32_MAX \<and> height e = UINT32_MAX))"

definition spec_clampSize :: "int \<Rightarrow> uint32_t \<Rightarrow> uint32_t \<Rightarrow> uint32_t" where
  "spec_clampSize v lo hi = word_of_int (max (uint lo) (min v (uint hi)))"

definition spec_chooseSwapExtent :: "VkSurfaceCapabilitiesKHR \<Rightarrow> int \<times> int \<Rightarrow> VkExtent2D" where
  "spec_chooseSwapExtent caps fbSize =
     (if spec_extentDefined (currentExtent caps) then currentExtent caps
      else \<lparr>width = spec_clampSize (fst fbSize)
                      (width (minImageExtent caps)) (width (maxImageExtent caps)),
            height = spec_clampSize (snd fbSize)
                       (height (minImageExtent caps)) (height (maxImageExtent caps))\<rparr>)"

text \<open>An extent lies component-wise between two extents.\<close>

definition extent_within :: "VkExtent2D \<Rightarrow> VkExtent2D \<Rightarrow> VkExtent2D \<Rightarrow> bool" where
  "extent_within lo hi e =
     (width lo \<le> width e \<and> width e \<le> width hi
      \<and> height lo \<le> height e \<and> height e \<le> height hi)"

text \<open>
  The words of the specification for queue family discovery: a family is graphics
  capable when its flags include the graphics bit, present capable when the surface
  support query of its index answers true, and the discovery returns the lowest index
  of each kind.
\<close>

definition graphicsCapable :: "PhysicalDevice \<Rightarrow> nat \<Rightarrow> bool" where
  "graphicsCapable device i =
     (i < length (queueFamilyProperties device)
      \<and> queueFlags (queueFamilyProperties device ! i) AND VK_QUEUE_GRAPHICS_BIT \<noteq> 0)"

definition presentCapable :: "PhysicalDevice \<Rightarrow> nat \<Rightarrow> bool" where
  "presentCapable device i =
     (i < length (queueFamilyProperties device) \<and> surfaceSupport device i)"

definition spec_findQueueFamilies :: "PhysicalDevice \<Rightarrow> QueueFamilyIndices" where
  "spec_findQueueFamilies device =
     \<lparr>graphicsFamily =
        find (graphicsCapable device) [0..<length (queueFamilyProperties device)],
      presentFamily =
        find (presentCapable device) [0..<length (queueFamilyProperties device)]\<rparr>"

text \<open>
  What the loop does instead. \<open>bothSeen device k\<close>: among the families 0 to \<open>k\<close> there
  is a graphics capable one and a present capable one. \<open>scanned device\<close>: the number of
  families the loop looks at, up to and including the first \<open>k\<close> with
  \<open>bothSeen device k\<close>. \<open>highestBelow Q m\<close>: the highest index below \<open>m\<close> that
  satisfies \<open>Q\<close>.
\<close>

definition bothSeen :: "PhysicalDevice \<Rightarrow> nat \<Rightarrow> bool" where
  "bothSeen device k =
     (list_ex (graphicsCapable device) [0..<Suc k]
      \<and> list_ex (presentCapable device) [0..<Suc k])"

definition scanned :: "PhysicalDevice \<Rightarrow> nat" where
  "scanned device =
     (case find (bothSeen device) [0..<length (queueFamilyProperties device)] of
        Some k \<Rightarrow> Suc k
      | None \<Rightarrow> length (queueFamilyProperties device))"

definition highestBelow :: "(nat \<Rightarrow> bool) \<Rightarrow> nat \<Rightarrow> nat option" where
  "highestBelow Q m = find Q (rev [0..<m])"

text \<open>A list of events without a draw submission and without a presentation.\<close>

definition noDrawCalls :: "event list \<Rightarrow> bool" where
  "noDrawCalls t = (QueueSubmit \<notin> set t \<and> QueuePresent \<notin> set t)"

text \<open>
  The resources of the specification's teardown list; the image views and the
  framebuffers are one resource each, whatever the number of swap chain images.
\<close>

datatype resource =
    WindowingLibraryState
  | TheWindow
  | TheInstance
  | TheDebugMessenger
  | TheSurface
  | TheLogicalDevice
  | TheSwapchain
  | ImageViews
  | TheRenderPass
  | ShaderModules
  | ThePipelineLayout
  | ThePipeline
  | Framebuffers
  | TheCommandPool

fun resourceOf :: "object \<Rightarrow> resource" where
  "resourceOf GlfwLibrary = WindowingLibraryState"
| "resourceOf Window = TheWindow"
| "resourceOf Instance = TheInstance"
| "resourceOf DebugMessenger = TheDebugMessenger"
| "resourceOf Surface = TheSurface"
| "resourceOf LogicalDevice = TheLogicalDevice"
| "resourceOf Swapchain = TheSwapchain"
| "resourceOf (ImageView i) = ImageViews"
| "resourceOf RenderPass = TheRenderPass"
| "resourceOf (ShaderModule s) = ShaderModules"
| "resourceOf PipelineLayout = ThePipelineLayout"
| "resourceOf Pipeline = ThePipeline"
| "resourceOf (Framebuffer i) = Framebuffers"
| "resourceOf CommandPool = TheCommandPool"

text \<open>
  The objects a list of events creates and destroys, in order; the objects it leaves
  alive; the order in which the resources left alive were created, and the order in
  which resources are destroyed. \<open>precedes a b t\<close>: the event \<open>a\<close> occurs in \<open>t\<close> and
  \<open>b\<close> occurs after it.
\<close>

fun created :: "event list \<Rightarrow> object list" where
  "created [] = []"
| "created (Create x # t) = x # created t"
| "created (e # t) = created t"

fun destroyed :: "event list \<Rightarrow> object list" where
  "destroyed [] = []"
| "destroyed (Destroy x # t) = x # destroyed t"
| "destroyed (e # t) = destroyed t"

definition liveObjects :: "event list \<Rightarrow> object list" where
  "liveObjects t = filter (\<lambda>x. x \<notin> set (destroyed t)) (created t)"

definition creationOrder :: "event list \<Rightarrow> resource list" where
  "creationOrder t = remdups_adj (map resourceOf (liveObjects t))"

definition destructionOrder :: "event list \<Rightarrow> resource list" where
  "destructionOrder t = remdups_adj (map resourceOf (destroyed t))"

fun precedes :: "event \<Rightarrow> event \<Rightarrow> event list \<Rightarrow> bool" where
  "precedes a b [] = False"
| "precedes a b (e # t) = ((e = a \<and> b \<in> set t) \<or> precedes a b t)"

text \<open>The events of a startup in which every call succeeds, with \<open>n\<close> swap chain images.\<close>

definition startupEvents :: "bool \<Rightarrow> nat \<Rightarrow> event list" where
  "startupEvents validation n =
     [Create GlfwLibrary, Create Window, Create Instance]
     @ (if validation then [Create DebugMessenger] else [])
     @ [Create Surface, Create LogicalDevice, Create Swapchain]
     @ map (\<lambda>i. Create (ImageView i)) [0..<n]
     @ [Create RenderPass, Create (ShaderModule vert), Create (ShaderModule frag),
        Create PipelineLayout, Create Pipeline,
        Destroy (ShaderModule frag), Destroy (ShaderModule vert)]
     @ map (\<lambda>i. Create (Framebuffer i)) [0..<n]
     @ [Create CommandPool, AllocateCommandBuffers n]
     @ map RecordCommandBuffer [0..<n]"

section \<open>Concrete inputs\<close>

text \<open>Surface capabilities whose minimum image count is the largest \<^verbatim>\<open>uint32_t\<close>.\<close>

definition caps_wrap :: VkSurfaceCapabilitiesKHR where
  "caps_wrap =
     \<lparr>minImageCount = 0xFFFFFFFF, maxImageCount = 0,
      currentExtent = \<lparr>width = 0xFFFFFFFF, height = 0xFFFFFFFF\<rparr>,
      minImageExtent = \<lparr>width = 16, height = 16\<rparr>,
      maxImageExtent = \<lparr>width = 4096, height = 4096\<rparr>\<rparr>"

text \<open>Surface capabilities of a fixed-size window with double buffering.\<close>

definition caps_typical :: VkSurfaceCapabilitiesKHR where
  "caps_typical =
     \<lparr>minImageCount = 2, maxImageCount = 2,
      currentExtent = \<lparr>width = 800, height = 600\<rparr>,
      minImageExtent = \<lparr>width = 800, height = 600\<rparr>,
      maxImageExtent = \<lparr>width = 800, height = 600\<rparr>\<rparr>"

text \<open>Surface capabilities that leave the extent to the application.\<close>

definition caps_undefined_extent :: VkSurfaceCapabilitiesKHR where
  "caps_undefined_extent =
     \<lparr>minImageCount = 2, maxImageCount = 8,
      currentExtent = \<lparr>width = 0xFFFFFFFF, height = 0xFFFFFFFF\<rparr>,
      minImageExtent = \<lparr>width = 16, height = 16\<rparr>,
      maxImageExtent = \<lparr>width = 4096, height = 4096\<rparr>\<rparr>"

text \<open>Surface capabilities whose current extent has the largest width and a height of 600.\<close>

definition caps_width_sentinel :: VkSurfaceCapabilitiesKHR where
  "caps_width_sentinel =
     \<lparr>minImageCount = 2, maxImageCount = 8,
      currentExtent = \<lparr>width = 0xFFFFFFFF, height = 600\<rparr>,
      minImageExtent = \<lparr>width = 16, height = 16\<rparr>,
      maxImageExtent = \<lparr>width = 4096, height = 4096\<rparr>\<rparr>"

text \<open>Candidate formats with the preferred one last, and without it.\<close>

definition formats_preferred_last :: "VkSurfaceFormatKHR list" where
  "formats_preferred_last =
     [\<lparr>format = 37, colorSpace = 0\<rparr>, \<lparr>format = 44, colorSpace = 0\<rparr>,
      \<lparr>format = 50, colorSpace = 0\<rparr>]"

definition formats_without_preferred :: "VkSurfaceFormatKHR list" where
  "formats_without_preferred =
     [\<lparr>format = 37, colorSpace = 0\<rparr>, \<lparr>format = 50, colorSpace = 1000104002\<rparr>]"

text \<open>
  Three devices, all with the swap chain extension, one present mode and the formats of
  \<open>formats_preferred_last\<close>. Flags 7 are graphics, compute and transfer; flags 4 are
  transfer only. The first has two graphics families, of which the second presents; the
  second has a graphics family, a presenting transfer family and a family that does
  both; the third has one family that does both.
\<close>

definition device_two_graphics :: PhysicalDevice where
  "device_two_graphics =
     \<lparr>queueFamilyProperties = [\<lparr>queueFlags = 7\<rparr>, \<lparr>queueFlags = 7\<rparr>],
      surfaceSupport = (\<lambda>i. i = 1),
      extensionNames = [''VK_KHR_swapchain''],
      capabilities = caps_typical,
      formats = formats_preferred_last,
      presentModes = [VK_PRESENT_MODE_FIFO_KHR]\<rparr>"

definition device_split_then_both :: PhysicalDevice where
  "device_split_then_both =
     \<lparr>queueFamilyProperties = [\<lparr>queueFlags = 7\<rparr>, \<lparr>queueFlags = 4\<rparr>, \<lparr>queueFlags = 7\<rparr>],
      surfaceSupport = (\<lambda>i. i = 1 \<or> i = 2),
      extensionNames = [''VK_KHR_swapchain''],
      capabilities = caps_typical,
      formats = formats_preferred_last,
      presentModes = [VK_PRESENT_MODE_FIFO_KHR]\<rparr>"

definition device_single_family :: PhysicalDevice where
  "device_single_family =
     \<lparr>queueFamilyProperties = [\<lparr>queueFlags = 7\<rparr>],
      surfaceSupport = (\<lambda>i. i = 0),
      extensionNames = [''VK_KHR_swapchain''],
      capabilities = caps_typical,
      formats = formats_preferred_last,
      presentModes = [VK_PRESENT_MODE_FIFO_KHR]\<rparr>"

text \<open>
  Three environments in which the driver has 18 instance extensions, every call
  succeeds, the one device is \<open>device_single_family\<close>, the swap chain has two images
  and the window is closed at the third test of the loop condition: a release build, a
  debug build with the validation layer installed, and a debug build without it.
\<close>

definition env_release :: Environment where
  "env_release =
     \<lparr>enableValidationLayers = False,
      instanceExtensionCount = 18,
      availableLayers = [],
      vkCreateInstance_ok = True,
      debugUtilsFunctionsFound = False,
      vkCreateDebugUtilsMessengerEXT_ok = False,
      glfwCreateWindowSurface_ok = True,
      physicalDevices = [device_single_family],
      vkCreateDevice_ok = True,
      framebufferSize = (800, 600),
      vkCreateSwapchainKHR_ok = True,
      swapChainImages = 2,
      vkCreateImageView_ok = (\<lambda>i. True),
      vkCreateRenderPass_ok = True,
      readFile_ok = (\<lambda>s. True),
      vkCreateShaderModule_ok = (\<lambda>s. True),
      vkCreatePipelineLayout_ok = True,
      vkCreateGraphicsPipelines_ok = True,
      vkCreateFramebuffer_ok = (\<lambda>i. True),
      vkCreateCommandPool_ok = True,
      vkAllocateCommandBuffers_ok = True,
      vkBeginCommandBuffer_ok = (\<lambda>i. True),
      vkEndCommandBuffer_ok = (\<lambda>i. True),
      windowShouldClose = (\<lambda>k. 2 \<le> k)\<rparr>"

definition env_debug :: Environment where
  "env_debug =
     env_release
       \<lparr>enableValidationLayers := True,
        availableLayers := [''VK_LAYER_KHRONOS_validation''],
        debugUtilsFunctionsFound := True,
        vkCreateDebugUtilsMessengerEXT_ok := True\<rparr>"

definition env_missing_layer :: Environment where
  "env_missing_layer =
     env_release
       \<lparr>enableValidationLayers := True,
        availableLayers := [''VK_LAYER_LUNARG_api_dump'']\<rparr>"

text \<open>The debug build without the validation layer, on a driver with 33 instance extensions.\<close>

definition env_many_extensions :: Environment where
  "env_many_extensions = env_missing_layer\<lparr>instanceExtensionCount := 33\<rparr>"

section \<open>Swap chain settings: properties\<close>

lemma UINT32_MAX_minus_1: "UINT32_MAX = - 1"
  by (simp add: UINT32_MAX_def)

lemma uint32_le_UINT32_MAX: "(w :: uint32_t) \<le> UINT32_MAX"
  by (simp add: UINT32_MAX_minus_1)

lemma uint32_less_succ: "(m :: uint32_t) \<noteq> UINT32_MAX \<Longrightarrow> m < m + 1"
  unfolding UINT32_MAX_minus_1 by (meson inc_less_eq_triv_imp verit_comp_simplify1(3))

lemma swapChainImageCount_min:
  "swapChainImageCount caps = min (minImageCount caps + 1) (spec_upper_bound caps)"
  using uint32_le_UINT32_MAX[of "minImageCount caps + 1"]
  by (auto simp: swapChainImageCount_def spec_upper_bound_def Let_def min_def word_gt_0)

lemma swapChainImageCount_clamp:
  assumes "minImageCount caps \<noteq> UINT32_MAX"
    and "maxImageCount caps = 0 \<or> minImageCount caps \<le> maxImageCount caps"
  shows "swapChainImageCount caps = spec_imageCount caps"
  using assms uint32_less_succ[of "minImageCount caps"]
    uint32_le_UINT32_MAX[of "minImageCount caps"]
  by (auto simp: swapChainImageCount_min spec_imageCount_def spec_clamp_def
      spec_upper_bound_def min_def max_def)

text \<open>
  C3, as stated, fails: with a minimum image count of \<open>2^32 - 1\<close> and no maximum, the
  \<^verbatim>\<open>uint32_t\<close> addition wraps to 0 and the program requests 0 images, while the
  clamp of the specification never goes below the minimum image count.
\<close>

theorem swapChainImageCount_not_clamp_counterexample:
  "swapChainImageCount caps_wrap = 0
   \<and> spec_imageCount caps_wrap = 0xFFFFFFFF
   \<and> swapChainImageCount caps_wrap \<noteq> spec_imageCount caps_wrap"
  by (simp add: caps_wrap_def swapChainImageCount_def spec_imageCount_def spec_clamp_def
      spec_upper_bound_def UINT32_MAX_def)

text \<open>
  C3, amended: for every surface-capabilities value, the image count requested by
  \<^verbatim>\<open>createSwapChain\<close> is the minimum of \<open>minImageCount + 1\<close> (32-bit unsigned, wrapping)
  and the maximum image count, where a maximum of 0 means unbounded; no lower clamp is
  applied. It equals \<open>clamp (minImageCount + 1, minImageCount, maxImageCount)\<close> whenever
  \<open>minImageCount\<close> is below \<open>2^32 - 1\<close> and the maximum is 0 or at least the minimum.
\<close>

theorem swapChainImageCount_amended:
  "swapChainImageCount caps = min (minImageCount caps + 1) (spec_upper_bound caps)
   \<and> (minImageCount caps \<noteq> UINT32_MAX
        \<and> (maxImageCount caps = 0 \<or> minImageCount caps \<le> maxImageCount caps)
       \<longrightarrow> swapChainImageCount caps = spec_imageCount caps)"
  using swapChainImageCount_min swapChainImageCount_clamp by blast

theorem swapChainImageCount_amended_witness:
  "minImageCount caps_typical \<noteq> UINT32_MAX
   \<and> minImageCount caps_typical \<le> maxImageCount caps_typical
   \<and> swapChainImageCount caps_typical = 2
   \<and> spec_imageCount caps_typical = 2"
  using swapChainImageCount_amended [of caps_typical]
  by (simp add: caps_typical_def UINT32_MAX_def spec_upper_bound_def spec_imageCount_def
      spec_clamp_def)

lemma chooseSwapPresentMode_absent:
  "VK_PRESENT_MODE_MAILBOX_KHR \<notin> set ms
   \<Longrightarrow> chooseSwapPresentMode ms = VK_PRESENT_MODE_FIFO_KHR"
  by (induction ms) auto

lemma chooseSwapPresentMode_present:
  "VK_PRESENT_MODE_MAILBOX_KHR \<in> set ms
   \<Longrightarrow> chooseSwapPresentMode ms = VK_PRESENT_MODE_MAILBOX_KHR"
  by (induction ms) auto

text \<open>
  C6: for every list of candidate present modes, \<^verbatim>\<open>chooseSwapPresentMode\<close> returns
  mailbox whenever mailbox is in the list, and FIFO otherwise, also when the list holds
  other modes than FIFO and no mailbox.
\<close>

theorem chooseSwapPresentMode_mailbox_or_fifo:
  "(VK_PRESENT_MODE_MAILBOX_KHR \<in> set availablePresentModes
      \<longrightarrow> chooseSwapPresentMode availablePresentModes = VK_PRESENT_MODE_MAILBOX_KHR)
   \<and> (VK_PRESENT_MODE_MAILBOX_KHR \<notin> set availablePresentModes
      \<longrightarrow> chooseSwapPresentMode availablePresentModes = VK_PRESENT_MODE_FIFO_KHR)"
  using chooseSwapPresentMode_absent chooseSwapPresentMode_present by blast

theorem chooseSwapPresentMode_mailbox_or_fifo_witness:
  "VK_PRESENT_MODE_MAILBOX_KHR \<in>
     set [VK_PRESENT_MODE_FIFO_KHR, VK_PRESENT_MODE_IMMEDIATE_KHR, VK_PRESENT_MODE_MAILBOX_KHR]
   \<and> chooseSwapPresentMode
       [VK_PRESENT_MODE_FIFO_KHR, VK_PRESENT_MODE_IMMEDIATE_KHR, VK_PRESENT_MODE_MAILBOX_KHR]
     = VK_PRESENT_MODE_MAILBOX_KHR
   \<and> VK_PRESENT_MODE_MAILBOX_KHR \<notin>
     set [VK_PRESENT_MODE_IMMEDIATE_KHR, VK_PRESENT_MODE_FIFO_RELAXED_KHR]
   \<and> chooseSwapPresentMode [VK_PRESENT_MODE_IMMEDIATE_KHR, VK_PRESENT_MODE_FIFO_RELAXED_KHR]
     = VK_PRESENT_MODE_FIFO_KHR"
  using chooseSwapPresentMode_mailbox_or_fifo
          [of "[VK_PRESENT_MODE_FIFO_KHR, VK_PRESENT_MODE_IMMEDIATE_KHR,
                VK_PRESENT_MODE_MAILBOX_KHR]"]
        chooseSwapPresentMode_mailbox_or_fifo
          [of "[VK_PRESENT_MODE_IMMEDIATE_KHR, VK_PRESENT_MODE_FIFO_RELAXED_KHR]"]
  by simp

lemma chooseSwapExtent_defined:
  "width (currentExtent caps) \<noteq> UINT32_MAX
   \<Longrightarrow> chooseSwapExtent caps fbSize = currentExtent caps"
  by (simp add: chooseSwapExtent_def)

lemma chooseSwapExtent_undefined:
  "width (currentExtent caps) = UINT32_MAX
   \<Longrightarrow> chooseSwapExtent caps fbSize =
       \<lparr>width = spec_clamp (word_of_int (fst fbSize))
                  (width (minImageExtent caps)) (width (maxImageExtent caps)),
        height = spec_clamp (word_of_int (snd fbSize))
                   (height (minImageExtent caps)) (height (maxImageExtent caps))\<rparr>"
  by (simp add: chooseSwapExtent_def spec_clamp_def Let_def min.commute)

lemma spec_clamp_between:
  "lo \<le> hi \<Longrightarrow> lo \<le> spec_clamp v lo hi \<and> spec_clamp v lo hi \<le> hi"
  by (simp add: spec_clamp_def)

lemma spec_clamp_inside:
  "lo \<le> v \<Longrightarrow> v \<le> hi \<Longrightarrow> spec_clamp v lo hi = v"
  by (simp add: spec_clamp_def)

lemma spec_clampSize_word:
  assumes "0 \<le> v" and "v < 2 ^ 32"
  shows "spec_clampSize v lo hi = spec_clamp (word_of_int v) lo hi"
proof -
  define x :: uint32_t where "x = word_of_int v"
  have x: "uint x = v"
    using assms by (simp add: x_def uint_word_of_int)
  have "word_of_int (max (uint lo) (min (uint x) (uint hi))) = max lo (min x hi)"
    by (simp add: max_def min_def word_le_def)
  then show ?thesis
    by (simp add: spec_clampSize_def spec_clamp_def x x_def[symmetric])
qed

lemma chooseSwapExtent_agrees:
  assumes "(width (currentExtent caps) = UINT32_MAX) = (height (currentExtent caps) = UINT32_MAX)"
    and "0 \<le> fst fbSize" "fst fbSize < 2 ^ 32" "0 \<le> snd fbSize" "snd fbSize < 2 ^ 32"
  shows "chooseSwapExtent caps fbSize = spec_chooseSwapExtent caps fbSize"
proof (cases "width (currentExtent caps) = UINT32_MAX")
  case True
  with assms(1) have "\<not> spec_extentDefined (currentExtent caps)"
    by (simp add: spec_extentDefined_def)
  with True assms(2-5) show ?thesis
    by (simp add: chooseSwapExtent_undefined spec_chooseSwapExtent_def spec_clampSize_word)
next
  case False
  then have "spec_extentDefined (currentExtent caps)"
    by (simp add: spec_extentDefined_def)
  with False show ?thesis
    by (simp add: chooseSwapExtent_defined spec_chooseSwapExtent_def)
qed

text \<open>
  C4, as stated, fails. With a current extent of width \<open>2^32 - 1\<close> and height 600, which
  is not the sentinel, the program does not return the current extent but the clamped
  framebuffer size, since it tests the width alone. And a negative framebuffer size,
  converted to \<^verbatim>\<open>uint32_t\<close>, is large, so that it is clamped to the maximum extent and
  not to the minimum.
\<close>

theorem chooseSwapExtent_not_spec_counterexample:
  "spec_extentDefined (currentExtent caps_width_sentinel)
   \<and> currentExtent caps_width_sentinel = \<lparr>width = 0xFFFFFFFF, height = 600\<rparr>
   \<and> spec_chooseSwapExtent caps_width_sentinel (1024, 768)
       = \<lparr>width = 0xFFFFFFFF, height = 600\<rparr>
   \<and> chooseSwapExtent caps_width_sentinel (1024, 768) = \<lparr>width = 1024, height = 768\<rparr>
   \<and> chooseSwapExtent caps_width_sentinel (1024, 768) \<noteq> currentExtent caps_width_sentinel
   \<and> \<not> spec_extentDefined (currentExtent caps_undefined_extent)
   \<and> spec_chooseSwapExtent caps_undefined_extent (- 1, - 5) = \<lparr>width = 16, height = 16\<rparr>
   \<and> chooseSwapExtent caps_undefined_extent (- 1, - 5) = \<lparr>width = 4096, height = 4096\<rparr>"
  by (simp add: caps_width_sentinel_def caps_undefined_extent_def spec_extentDefined_def
      spec_chooseSwapExtent_def spec_clampSize_def chooseSwapExtent_def UINT32_MAX_def)

text \<open>
  C4, amended: for every surface-capabilities value and framebuffer size,
  \<^verbatim>\<open>chooseSwapExtent\<close> returns the current extent of the capabilities exactly whenever
  the width of the current extent is not the largest \<^verbatim>\<open>uint32_t\<close> (the height is not
  examined), and otherwise the framebuffer size of the window, converted to
  \<^verbatim>\<open>uint32_t\<close> and clamped component-wise between the minimum and the maximum image
  extent: the result lies between them whenever the minimum is not above the maximum,
  and is the converted framebuffer size itself whenever that lies between them. This is
  the rule of the specification (the current extent when it is not the sentinel, else
  the clamped framebuffer size) whenever the width and the height of the current extent
  are both the largest \<^verbatim>\<open>uint32_t\<close> or both not, and the framebuffer size is not
  negative.
\<close>

theorem chooseSwapExtent_amended:
  "(width (currentExtent caps) \<noteq> UINT32_MAX
      \<longrightarrow> chooseSwapExtent caps fbSize = currentExtent caps)
   \<and> (width (currentExtent caps) = UINT32_MAX
      \<longrightarrow> chooseSwapExtent caps fbSize =
            \<lparr>width = spec_clamp (word_of_int (fst fbSize))
                       (width (minImageExtent caps)) (width (maxImageExtent caps)),
             height = spec_clamp (word_of_int (snd fbSize))
                        (height (minImageExtent caps)) (height (maxImageExtent caps))\<rparr>)
   \<and> (width (currentExtent caps) = UINT32_MAX
        \<and> width (minImageExtent caps) \<le> width (maxImageExtent caps)
        \<and> height (minImageExtent caps) \<le> height (maxImageExtent caps)
      \<longrightarrow> extent_within (minImageExtent caps) (maxImageExtent caps)
            (chooseSwapExtent caps fbSize))
   \<and> (width (currentExtent caps) = UINT32_MAX
        \<and> extent_within (minImageExtent caps) (maxImageExtent caps)
             \<lparr>width = word_of_int (fst fbSize),
              height = word_of_int (snd fbSize)\<rparr>
      \<longrightarrow> chooseSwapExtent caps fbSize =
            \<lparr>width = word_of_int (fst fbSize),
             height = word_of_int (snd fbSize)\<rparr>)
   \<and> ((width (currentExtent caps) = UINT32_MAX) = (height (currentExtent caps) = UINT32_MAX)
        \<and> 0 \<le> fst fbSize \<and> fst fbSize < 2 ^ 32 \<and> 0 \<le> snd fbSize \<and> snd fbSize < 2 ^ 32
      \<longrightarrow> chooseSwapExtent caps fbSize = spec_chooseSwapExtent caps fbSize)"
proof (intro conjI impI)
  assume "width (currentExtent caps) \<noteq> UINT32_MAX"
  then show "chooseSwapExtent caps fbSize = currentExtent caps"
    by (rule chooseSwapExtent_defined)
next
  assume "width (currentExtent caps) = UINT32_MAX"
  then show "chooseSwapExtent caps fbSize =
       \<lparr>width = spec_clamp (word_of_int (fst fbSize))
                  (width (minImageExtent caps)) (width (maxImageExtent caps)),
        height = spec_clamp (word_of_int (snd fbSize))
                   (height (minImageExtent caps)) (height (maxImageExtent caps))\<rparr>"
    by (rule chooseSwapExtent_undefined)
next
  assume "width (currentExtent caps) = UINT32_MAX
        \<and> width (minImageExtent caps) \<le> width (maxImageExtent caps)
        \<and> height (minImageExtent caps) \<le> height (maxImageExtent caps)"
  then show "extent_within (minImageExtent caps) (maxImageExtent caps)
            (chooseSwapExtent caps fbSize)"
    by (simp add: chooseSwapExtent_undefined extent_within_def spec_clamp_between)
next
  assume "width (currentExtent caps) = UINT32_MAX
        \<and> extent_within (minImageExtent caps) (maxImageExtent caps)
             \<lparr>width = word_of_int (fst fbSize),
              height = word_of_int (snd fbSize)\<rparr>"
  then show "chooseSwapExtent caps fbSize =
            \<lparr>width = word_of_int (fst fbSize),
             height = word_of_int (snd fbSize)\<rparr>"
    by (simp add: chooseSwapExtent_undefined extent_within_def spec_clamp_inside)
next
  assume "(width (currentExtent caps) = UINT32_MAX) = (height (currentExtent caps) = UINT32_MAX)
        \<and> 0 \<le> fst fbSize \<and> fst fbSize < 2 ^ 32 \<and> 0 \<le> snd fbSize \<and> snd fbSize < 2 ^ 32"
  then show "chooseSwapExtent caps fbSize = spec_chooseSwapExtent caps fbSize"
    by (simp add: chooseSwapExtent_agrees)
qed

theorem chooseSwapExtent_amended_witness:
  "width (currentExtent caps_typical) \<noteq> UINT32_MAX
   \<and> chooseSwapExtent caps_typical (1024, 768) = \<lparr>width = 800, height = 600\<rparr>
   \<and> spec_chooseSwapExtent caps_typical (1024, 768) = \<lparr>width = 800, height = 600\<rparr>
   \<and> width (currentExtent caps_undefined_extent) = UINT32_MAX
   \<and> height (currentExtent caps_undefined_extent) = UINT32_MAX
   \<and> chooseSwapExtent caps_undefined_extent (5000, 3) = \<lparr>width = 4096, height = 16\<rparr>
   \<and> spec_chooseSwapExtent caps_undefined_extent (5000, 3) = \<lparr>width = 4096, height = 16\<rparr>
   \<and> extent_within (minImageExtent caps_undefined_extent)
        (maxImageExtent caps_undefined_extent) \<lparr>width = 800, height = 600\<rparr>
   \<and> chooseSwapExtent caps_undefined_extent (800, 600) = \<lparr>width = 800, height = 600\<rparr>"
  using chooseSwapExtent_amended [of caps_typical "(1024, 768)"]
    chooseSwapExtent_amended [of caps_undefined_extent "(5000, 3)"]
    chooseSwapExtent_amended [of caps_undefined_extent "(800, 600)"]
  by (simp add: caps_typical_def caps_undefined_extent_def UINT32_MAX_def spec_clamp_def
      extent_within_def spec_chooseSwapExtent_def spec_extentDefined_def spec_clampSize_def)

lemma chooseSwapSurfaceFormat_loop_Some:
  "chooseSwapSurfaceFormat_loop fs = Some f \<Longrightarrow> f = preferredSurfaceFormat"
  by (induction fs) (auto simp: preferredSurfaceFormat_def split: if_splits)

lemma chooseSwapSurfaceFormat_loop_None:
  "chooseSwapSurfaceFormat_loop fs = None \<longleftrightarrow> preferredSurfaceFormat \<notin> set fs"
  by (induction fs) (auto simp: preferredSurfaceFormat_def)

lemma chooseSwapSurfaceFormat_preferred:
  "preferredSurfaceFormat \<in> set fs \<Longrightarrow> chooseSwapSurfaceFormat fs = Some preferredSurfaceFormat"
  using chooseSwapSurfaceFormat_loop_None[of fs] chooseSwapSurfaceFormat_loop_Some[of fs]
  by (auto simp: chooseSwapSurfaceFormat_def split: option.splits)

lemma chooseSwapSurfaceFormat_first:
  "preferredSurfaceFormat \<notin> set fs \<Longrightarrow> fs \<noteq> [] \<Longrightarrow> chooseSwapSurfaceFormat fs = Some (hd fs)"
  using chooseSwapSurfaceFormat_loop_None[of fs]
  by (auto simp: chooseSwapSurfaceFormat_def split: option.splits list.splits)

text \<open>
  C5: for every non-empty list of candidate surface formats, \<^verbatim>\<open>chooseSwapSurfaceFormat\<close>
  returns the BGRA8-sRGB format with the sRGB-nonlinear colour space whenever a candidate
  has that format and colour space, wherever it stands in the list, and the first
  candidate otherwise. The result is a function of the list, and in the preferred case
  every list with the same candidates gives the same result.
\<close>

theorem chooseSwapSurfaceFormat_preferred_or_first:
  assumes "availableFormats \<noteq> []"
  shows "(preferredSurfaceFormat \<in> set availableFormats
            \<longrightarrow> chooseSwapSurfaceFormat availableFormats = Some preferredSurfaceFormat)
       \<and> (preferredSurfaceFormat \<notin> set availableFormats
            \<longrightarrow> chooseSwapSurfaceFormat availableFormats = Some (hd availableFormats))
       \<and> (\<forall>reordered. preferredSurfaceFormat \<in> set availableFormats
              \<and> set reordered = set availableFormats
            \<longrightarrow> chooseSwapSurfaceFormat reordered = chooseSwapSurfaceFormat availableFormats)"
  using assms chooseSwapSurfaceFormat_preferred chooseSwapSurfaceFormat_first
  by simp

theorem chooseSwapSurfaceFormat_preferred_or_first_witness:
  "formats_preferred_last \<noteq> []
   \<and> preferredSurfaceFormat \<in> set formats_preferred_last
   \<and> chooseSwapSurfaceFormat formats_preferred_last = Some \<lparr>format = 50, colorSpace = 0\<rparr>
   \<and> set (rev formats_preferred_last) = set formats_preferred_last
   \<and> chooseSwapSurfaceFormat (rev formats_preferred_last)
       = chooseSwapSurfaceFormat formats_preferred_last
   \<and> formats_without_preferred \<noteq> []
   \<and> preferredSurfaceFormat \<notin> set formats_without_preferred
   \<and> chooseSwapSurfaceFormat formats_without_preferred = Some \<lparr>format = 37, colorSpace = 0\<rparr>"
  using chooseSwapSurfaceFormat_preferred_or_first [of formats_preferred_last]
    chooseSwapSurfaceFormat_preferred_or_first [of formats_without_preferred]
  by (auto simp add: formats_preferred_last_def formats_without_preferred_def
      preferredSurfaceFormat_def VK_FORMAT_B8G8R8A8_SRGB_def
      VK_COLOR_SPACE_SRGB_NONLINEAR_KHR_def chooseSwapSurfaceFormat_def)

section \<open>Queue family discovery: properties\<close>

lemma highestBelow_0: "highestBelow Q 0 = None"
  by (simp add: highestBelow_def)

lemma highestBelow_Suc:
  "highestBelow Q (Suc m) = (if Q m then Some m else highestBelow Q m)"
  by (simp add: highestBelow_def)

lemma highestBelow_None_iff: "highestBelow Q m = None \<longleftrightarrow> (\<forall>i<m. \<not> Q i)"
  by (induction m) (auto simp: highestBelow_0 highestBelow_Suc less_Suc_eq)

lemma highestBelow_Some:
  "highestBelow Q m = Some a \<Longrightarrow> a < m \<and> Q a \<and> (\<forall>i. a < i \<and> i < m \<longrightarrow> \<not> Q i)"
  by (induction m) (auto simp: highestBelow_0 highestBelow_Suc less_Suc_eq split: if_splits)

lemma bothSeen_iff:
  "bothSeen device k \<longleftrightarrow>
     highestBelow (graphicsCapable device) (Suc k) \<noteq> None
     \<and> highestBelow (presentCapable device) (Suc k) \<noteq> None"
proof -
  have "list_ex Q [0..<m] \<longleftrightarrow> highestBelow Q m \<noteq> None" for Q m
    by (auto simp: highestBelow_None_iff list_ex_iff)
  then show ?thesis unfolding bothSeen_def by blast
qed

lemma scanned_stop:
  assumes "\<forall>k<i. \<not> bothSeen device k" "bothSeen device i"
    "i < length (queueFamilyProperties device)"
  shows "scanned device = Suc i"
proof -
  have "find (bothSeen device) [0..<length (queueFamilyProperties device)] = Some i"
    using assms by (auto simp: find_Some_iff)
  then show ?thesis by (simp add: scanned_def)
qed

lemma scanned_all:
  assumes "\<forall>k<length (queueFamilyProperties device). \<not> bothSeen device k"
  shows "scanned device = length (queueFamilyProperties device)"
proof -
  have "find (bothSeen device) [0..<length (queueFamilyProperties device)] = None"
    using assms by (auto simp: find_None_iff)
  then show ?thesis by (simp add: scanned_def)
qed

lemma findQueueFamilies_loop_invariant:
  assumes "queueFamilyProperties device = scannedFamilies @ rest"
    and "i = length scannedFamilies"
    and "indices = \<lparr>graphicsFamily = highestBelow (graphicsCapable device) i,
                    presentFamily = highestBelow (presentCapable device) i\<rparr>"
    and "\<forall>k<i. \<not> bothSeen device k"
  shows "findQueueFamilies_loop device i indices rest =
           \<lparr>graphicsFamily = highestBelow (graphicsCapable device) (scanned device),
            presentFamily = highestBelow (presentCapable device) (scanned device)\<rparr>"
  using assms
proof (induction rest arbitrary: scannedFamilies i indices)
  case Nil
  then have "scanned device = i"
    using scanned_all[of device] by simp
  with Nil show ?case by simp
next
  case (Cons queueFamily rest)
  have i_less: "i < length (queueFamilyProperties device)"
    using Cons.prems by simp
  have nth: "queueFamilyProperties device ! i = queueFamily"
    using Cons.prems by simp
  have g: "graphicsCapable device i \<longleftrightarrow> queueFlags queueFamily AND VK_QUEUE_GRAPHICS_BIT \<noteq> 0"
    using i_less nth by (simp add: graphicsCapable_def)
  have p: "presentCapable device i \<longleftrightarrow> surfaceSupport device i"
    using i_less by (simp add: presentCapable_def)
  let ?next = "\<lparr>graphicsFamily = highestBelow (graphicsCapable device) (Suc i),
                 presentFamily = highestBelow (presentCapable device) (Suc i)\<rparr>"
  have complete: "isComplete ?next \<longleftrightarrow> bothSeen device i"
    by (simp add: isComplete_def bothSeen_iff)
  have step: "findQueueFamilies_loop device i indices (queueFamily # rest) =
          (if isComplete ?next then ?next
           else findQueueFamilies_loop device (Suc i) ?next rest)"
    using Cons.prems(3) g p by (simp add: highestBelow_Suc Let_def)
  show ?case
  proof (cases "bothSeen device i")
    case True
    then have "scanned device = Suc i"
      using scanned_stop[of i device] Cons.prems(4) i_less by simp
    with True step complete show ?thesis by simp
  next
    case False
    have "findQueueFamilies_loop device (Suc i) ?next rest =
           \<lparr>graphicsFamily = highestBelow (graphicsCapable device) (scanned device),
            presentFamily = highestBelow (presentCapable device) (scanned device)\<rparr>"
    proof (rule Cons.IH[of "scannedFamilies @ [queueFamily]"])
      show "queueFamilyProperties device = (scannedFamilies @ [queueFamily]) @ rest"
        using Cons.prems(1) by simp
      show "Suc i = length (scannedFamilies @ [queueFamily])"
        using Cons.prems(2) by simp
      show "?next = ?next" ..
      show "\<forall>k<Suc i. \<not> bothSeen device k"
        using Cons.prems(4) False by (simp add: less_Suc_eq)
    qed
    with False step complete show ?thesis by simp
  qed
qed

lemma findQueueFamilies_highest_scanned:
  "findQueueFamilies device =
     \<lparr>graphicsFamily = highestBelow (graphicsCapable device) (scanned device),
      presentFamily = highestBelow (presentCapable device) (scanned device)\<rparr>"
  unfolding findQueueFamilies_def
  by (rule findQueueFamilies_loop_invariant[of device "[]"]) (simp_all add: highestBelow_0)

text \<open>
  C1, as stated, fails. On a device whose families 0 and 1 both have the graphics bit
  and whose family 1 alone supports presenting, the lowest graphics capable family is
  0, yet the loop overwrites it and returns 1. On a device whose family 0 has graphics
  only, family 1 present only and family 2 both, the loop stops at family 1, and the
  returned indices are 0 and 1, not the index of the family that supports both.
\<close>

theorem findQueueFamilies_not_lowest_counterexample:
  "findQueueFamilies device_two_graphics = \<lparr>graphicsFamily = Some 1, presentFamily = Some 1\<rparr>
   \<and> spec_findQueueFamilies device_two_graphics
       = \<lparr>graphicsFamily = Some 0, presentFamily = Some 1\<rparr>
   \<and> findQueueFamilies device_two_graphics \<noteq> spec_findQueueFamilies device_two_graphics
   \<and> graphicsCapable device_split_then_both 2
   \<and> presentCapable device_split_then_both 2
   \<and> findQueueFamilies device_split_then_both
       = \<lparr>graphicsFamily = Some 0, presentFamily = Some 1\<rparr>"
  by (simp add: findQueueFamilies_def spec_findQueueFamilies_def device_two_graphics_def
      device_split_then_both_def VK_QUEUE_GRAPHICS_BIT_def isComplete_def
      graphicsCapable_def presentCapable_def upt_rec)

lemma findQueueFamilies_both_at:
  assumes "graphicsCapable device k" and "presentCapable device k"
    and "(\<forall>i<k. \<not> graphicsCapable device i) \<or> (\<forall>i<k. \<not> presentCapable device i)"
  shows "findQueueFamilies device = \<lparr>graphicsFamily = Some k, presentFamily = Some k\<rparr>"
proof -
  have "\<not> bothSeen device i" if "i < k" for i
    using assms(3) that unfolding bothSeen_def list_ex_iff by auto
  moreover have "bothSeen device k"
    using assms(1,2) unfolding bothSeen_def list_ex_iff by auto
  moreover have "k < length (queueFamilyProperties device)"
    using assms(1) by (simp add: graphicsCapable_def)
  ultimately have "scanned device = Suc k"
    using scanned_stop[of k device] by simp
  then show ?thesis
    using assms(1,2) by (simp add: findQueueFamilies_highest_scanned highestBelow_Suc)
qed

text \<open>
  C1, amended: for every physical device and surface, \<^verbatim>\<open>findQueueFamilies\<close> scans the
  queue families in index order and stops right after the first family by which both a
  graphics capable and a present capable family have been scanned, or at the end of the
  list. It returns as \<^verbatim>\<open>graphicsFamily\<close> the highest-indexed scanned family whose flags
  include graphics capability and, independently, as \<^verbatim>\<open>presentFamily\<close> the
  highest-indexed scanned family reporting present support (an empty optional when no
  scanned family qualifies). In particular, if a family supports both graphics and
  present, and before it no family supports graphics or no family supports present,
  both returned indices equal that family's index.
\<close>

theorem findQueueFamilies_amended:
  "findQueueFamilies device =
     \<lparr>graphicsFamily = highestBelow (graphicsCapable device) (scanned device),
      presentFamily = highestBelow (presentCapable device) (scanned device)\<rparr>
   \<and> (graphicsCapable device k \<and> presentCapable device k
        \<and> ((\<forall>i<k. \<not> graphicsCapable device i) \<or> (\<forall>i<k. \<not> presentCapable device i))
       \<longrightarrow> findQueueFamilies device = \<lparr>graphicsFamily = Some k, presentFamily = Some k\<rparr>)"
  using findQueueFamilies_highest_scanned findQueueFamilies_both_at by blast

theorem findQueueFamilies_amended_witness:
  "graphicsCapable device_two_graphics 1
   \<and> presentCapable device_two_graphics 1
   \<and> \<not> presentCapable device_two_graphics 0
   \<and> scanned device_two_graphics = 2
   \<and> highestBelow (graphicsCapable device_two_graphics) 2 = Some 1
   \<and> findQueueFamilies device_two_graphics
       = \<lparr>graphicsFamily = Some 1, presentFamily = Some 1\<rparr>"
proof -
  have g: "graphicsCapable device_two_graphics 1"
    by (simp add: graphicsCapable_def device_two_graphics_def VK_QUEUE_GRAPHICS_BIT_def)
  have p: "presentCapable device_two_graphics 1"
    by (simp add: presentCapable_def device_two_graphics_def)
  have before: "\<forall>i<1. \<not> presentCapable device_two_graphics i"
    by (simp add: presentCapable_def device_two_graphics_def)
  have result: "findQueueFamilies device_two_graphics
       = \<lparr>graphicsFamily = Some 1, presentFamily = Some 1\<rparr>"
    using findQueueFamilies_amended [of device_two_graphics 1] g p before by blast
  have s: "scanned device_two_graphics = 2"
    by (simp add: scanned_def bothSeen_def graphicsCapable_def presentCapable_def
        device_two_graphics_def VK_QUEUE_GRAPHICS_BIT_def upt_rec)
  have h: "highestBelow (graphicsCapable device_two_graphics) 2 = Some 1"
    using g by (simp add: highestBelow_def upt_rec)
  have p0: "\<not> presentCapable device_two_graphics 0"
    using before by simp
  from g p p0 s h result show ?thesis by blast
qed

section \<open>The logical device: properties\<close>

lemma queueCreateInfos_loop_append:
  "queueCreateInfos_loop priority acc families =
     acc @ map (\<lambda>family. \<lparr>queueFamilyIndex = family, queueCount = 1,
                            pQueuePriorities = priority\<rparr>) families"
  by (induction families arbitrary: acc) simp_all

text \<open>
  C2 does not hold of the program: \<^verbatim>\<open>uniqueQueueFamilies\<close> is a vector, not a set, so
  the program always passes two queue-create records, one for the graphics family and
  one for the present family, each with one queue at priority 1.0, also when the two
  families coincide.
\<close>

theorem deviceCreateInfo_always_two_records:
  assumes "findQueueFamilies physicalDevice = \<lparr>graphicsFamily = Some g, presentFamily = Some p\<rparr>"
  shows "\<exists>createInfo.
           deviceCreateInfo validation physicalDevice = Inr createInfo
           \<and> pQueueCreateInfos createInfo =
               [\<lparr>queueFamilyIndex = g, queueCount = 1, pQueuePriorities = 1\<rparr>,
                \<lparr>queueFamilyIndex = p, queueCount = 1, pQueuePriorities = 1\<rparr>]
           \<and> queueCreateInfoCount createInfo = 2"
  using assms
  by (simp add: deviceCreateInfo_def uniqueQueueFamilies_def optional_value_def
      queueCreateInfos_loop_append)

theorem deviceCreateInfo_always_two_records_witness:
  "findQueueFamilies device_single_family = \<lparr>graphicsFamily = Some 0, presentFamily = Some 0\<rparr>
   \<and> (\<exists>createInfo.
           deviceCreateInfo False device_single_family = Inr createInfo
           \<and> pQueueCreateInfos createInfo =
               [\<lparr>queueFamilyIndex = 0, queueCount = 1, pQueuePriorities = 1\<rparr>,
                \<lparr>queueFamilyIndex = 0, queueCount = 1, pQueuePriorities = 1\<rparr>]
           \<and> queueCreateInfoCount createInfo = 2)"
proof -
  have f: "findQueueFamilies device_single_family
             = \<lparr>graphicsFamily = Some 0, presentFamily = Some 0\<rparr>"
    by (simp add: findQueueFamilies_def device_single_family_def VK_QUEUE_GRAPHICS_BIT_def
        isComplete_def)
  show ?thesis
    using f deviceCreateInfo_always_two_records [OF f, of False] by blast
qed

section \<open>The run: properties\<close>

lemma andThen_Inl [simp]: "andThen (t, Inl e) f = (t, Inl e)"
  by (simp add: andThen_def)

lemma andThen_Inr [simp]: "andThen (t, Inr a) f = (t @ fst (f a), snd (f a))"
  by (simp add: andThen_def split: prod.splits)

lemma andThen_success:
  assumes "andThen m f = (t, Inr b)"
  obtains t1 a t2 where "m = (t1, Inr a)" and "f a = (t2, Inr b)" and "t = t1 @ t2"
  using assms by (cases m; cases "snd m") (auto simp: andThen_def split: prod.splits)

lemma layerFound_iff: "layerFound layerName available \<longleftrightarrow> layerName \<in> set available"
  by (induction available) auto

lemma checkValidationLayerSupport_loop_iff:
  "checkValidationLayerSupport_loop available requested \<longleftrightarrow> set requested \<subseteq> set available"
  by (induction requested) (auto simp: layerFound_iff)

lemma checkValidationLayerSupport_iff:
  "checkValidationLayerSupport env \<longleftrightarrow> set validationLayers \<subseteq> set (availableLayers env)"
  by (simp add: checkValidationLayerSupport_def checkValidationLayerSupport_loop_iff)

lemma initWindow_eq: "initWindow = ([Create GlfwLibrary, Create Window], Inr ())"
  by (simp add: initWindow_def emit_def)

subsection \<open>The three environments, evaluated\<close>

lemmas evaluation_defs =
  startup_def initWindow_eq initVulkan_def printExtensions_def createInstance_def
  checkValidationLayerSupport_def validationLayers_def emit_def setupDebugMessenger_def
  createSurface_def pickPhysicalDevice_def isDeviceSuitable_def findQueueFamilies_def
  device_single_family_def VK_QUEUE_GRAPHICS_BIT_def isComplete_def
  checkDeviceExtensionSupport_def deviceExtensions_def formats_preferred_last_def
  createLogicalDevice_def deviceCreateInfo_def uniqueQueueFamilies_def optional_value_def
  createSwapChain_def chooseSwapSurfaceFormat_def VK_FORMAT_B8G8R8A8_SRGB_def
  VK_COLOR_SPACE_SRGB_NONLINEAR_KHR_def swapChainSharing_def createImageviews_def upt_rec
  createRenderPass_def createGraphicsPipeline_def readFile_def createShaderModule_def
  nothing_def createFramebuffers_def createCommandPool_def commandPoolQueueFamily_def
  createCommandBuffers_def startupEvents_def Let_def

lemma startup_env_release: "startup env_release = (startupEvents False 2, Inr 2)"
  by (simp add: env_release_def evaluation_defs)

lemma startup_env_debug: "startup env_debug = (startupEvents True 2, Inr 2)"
  by (simp add: env_debug_def env_release_def evaluation_defs)

lemma mainLoop_env_release: "mainLoop 3 env_release 0 = ([PollEvents, PollEvents], True)"
  by (simp add: env_release_def eval_nat_numeral)

lemma mainLoop_env_debug: "mainLoop 3 env_debug 0 = ([PollEvents, PollEvents], True)"
  by (simp add: env_debug_def env_release_def eval_nat_numeral)

lemma run_env_release:
  "run 3 env_release =
     (startupEvents False 2 @ [PollEvents, PollEvents] @ cleanup env_release 2, Returned)"
  by (simp add: run_def startup_env_release mainLoop_env_release)

lemma run_env_debug:
  "run 3 env_debug =
     (startupEvents True 2 @ [PollEvents, PollEvents] @ cleanup env_debug 2, Returned)"
  by (simp add: run_def startup_env_debug mainLoop_env_debug)

subsection \<open>A missing validation layer\<close>

lemma printExtensions_within:
  "instanceExtensionCount env \<le> 32 \<Longrightarrow> printExtensions env = ([], Inr ())"
  by (simp add: printExtensions_def nothing_def)

lemma printExtensions_overflow:
  "32 < instanceExtensionCount env \<Longrightarrow> printExtensions env = ([], Inl undefined_behaviour)"
  by (simp add: printExtensions_def)

lemma startup_overflow:
  assumes "32 < instanceExtensionCount env"
  shows "startup env = ([Create GlfwLibrary, Create Window], Inl undefined_behaviour)"
  using assms
  by (simp add: startup_def initWindow_eq initVulkan_def printExtensions_overflow)

lemma run_never_throws_undefined_behaviour:
  "snd (run fuel env) \<noteq> Threw undefined_behaviour"
  by (auto simp: run_def split: prod.splits sum.splits bool.splits)

lemma startup_layer_missing:
  assumes "instanceExtensionCount env \<le> 32"
    and "enableValidationLayers env" and "\<not> checkValidationLayerSupport env"
  shows "startup env =
           ([Create GlfwLibrary, Create Window],
            Inl (runtime_error ''validation layers requested, but not available!''))"
  using assms
  by (simp add: startup_def initWindow_eq initVulkan_def printExtensions_within
      createInstance_def throw_def)

text \<open>
  C8 does not hold of the program as a whole. With validation layers enabled and a
  requested layer name absent from the enumerated instance layers, \<^verbatim>\<open>createInstance\<close>
  does throw before any instance or device is created, and when the run reaches it the
  only calls made so far are those of \<^verbatim>\<open>initWindow\<close>, and \<^verbatim>\<open>main\<close> writes the message
  of the error to the error stream and exits with the failure status, which is not
  zero; nothing is retried. But \<^verbatim>\<open>initVulkan\<close> calls \<^verbatim>\<open>printExtensions\<close> first, and on
  a driver that enumerates more than 32 instance extensions that call writes past the
  end of its array: the behaviour of the program is undefined before the layer check,
  and no message and no exit status are guaranteed.
\<close>

theorem missing_validation_layer_fatal_unless_overflow:
  assumes "enableValidationLayers env"
    and "\<exists>layerName\<in>set validationLayers. layerName \<notin> set (availableLayers env)"
  shows "createInstance env =
           ([], Inl (runtime_error ''validation layers requested, but not available!''))
       \<and> (instanceExtensionCount env \<le> 32 \<longrightarrow>
            run fuel env =
              ([Create GlfwLibrary, Create Window],
               Threw (runtime_error ''validation layers requested, but not available!''))
            \<and> main fuel env =
                Exited [''validation layers requested, but not available!''] EXIT_FAILURE)
       \<and> (32 < instanceExtensionCount env \<longrightarrow>
            run fuel env = ([Create GlfwLibrary, Create Window], Undefined)
            \<and> main fuel env = UndefinedBehaviour)
       \<and> EXIT_FAILURE \<noteq> 0"
proof -
  have unsupported: "\<not> checkValidationLayerSupport env"
    using assms(2) by (auto simp: checkValidationLayerSupport_iff)
  have thrown: "createInstance env =
           ([], Inl (runtime_error ''validation layers requested, but not available!''))"
    using assms(1) unsupported by (simp add: createInstance_def throw_def)
  have within: "run fuel env =
              ([Create GlfwLibrary, Create Window],
               Threw (runtime_error ''validation layers requested, but not available!''))
            \<and> main fuel env =
                Exited [''validation layers requested, but not available!''] EXIT_FAILURE"
    if "instanceExtensionCount env \<le> 32"
    using startup_layer_missing[OF that assms(1) unsupported]
    by (simp add: run_def main_def)
  have overflow: "run fuel env = ([Create GlfwLibrary, Create Window], Undefined)
            \<and> main fuel env = UndefinedBehaviour"
    if "32 < instanceExtensionCount env"
    using startup_overflow[OF that] by (simp add: run_def main_def)
  from thrown within overflow show ?thesis
    by (simp add: EXIT_FAILURE_def)
qed

theorem missing_validation_layer_fatal_unless_overflow_witness:
  "enableValidationLayers env_missing_layer
   \<and> ''VK_LAYER_KHRONOS_validation'' \<in> set validationLayers
   \<and> ''VK_LAYER_KHRONOS_validation'' \<notin> set (availableLayers env_missing_layer)
   \<and> instanceExtensionCount env_missing_layer \<le> 32
   \<and> run 5 env_missing_layer =
       ([Create GlfwLibrary, Create Window],
        Threw (runtime_error ''validation layers requested, but not available!''))
   \<and> main 5 env_missing_layer =
       Exited [''validation layers requested, but not available!''] 1
   \<and> enableValidationLayers env_many_extensions
   \<and> ''VK_LAYER_KHRONOS_validation'' \<notin> set (availableLayers env_many_extensions)
   \<and> 32 < instanceExtensionCount env_many_extensions
   \<and> run 5 env_many_extensions = ([Create GlfwLibrary, Create Window], Undefined)
   \<and> main 5 env_many_extensions = UndefinedBehaviour"
proof -
  have requested: "''VK_LAYER_KHRONOS_validation'' \<in> set validationLayers"
    by (simp add: validationLayers_def)
  have enabled: "enableValidationLayers env_missing_layer"
    and absent: "''VK_LAYER_KHRONOS_validation'' \<notin> set (availableLayers env_missing_layer)"
    and few: "instanceExtensionCount env_missing_layer \<le> 32"
    by (simp_all add: env_missing_layer_def env_release_def)
  have enabled': "enableValidationLayers env_many_extensions"
    and absent': "''VK_LAYER_KHRONOS_validation'' \<notin> set (availableLayers env_many_extensions)"
    and many: "32 < instanceExtensionCount env_many_extensions"
    by (simp_all add: env_many_extensions_def env_missing_layer_def env_release_def)
  have missing:
    "\<exists>layerName\<in>set validationLayers. layerName \<notin> set (availableLayers env_missing_layer)"
    using requested absent by blast
  have missing':
    "\<exists>layerName\<in>set validationLayers. layerName \<notin> set (availableLayers env_many_extensions)"
    using requested absent' by blast
  have first: "run 5 env_missing_layer =
       ([Create GlfwLibrary, Create Window],
        Threw (runtime_error ''validation layers requested, but not available!''))
   \<and> main 5 env_missing_layer =
       Exited [''validation layers requested, but not available!''] 1"
    using missing_validation_layer_fatal_unless_overflow [OF enabled missing, of 5] few
    by (simp add: EXIT_FAILURE_def)
  have second: "run 5 env_many_extensions = ([Create GlfwLibrary, Create Window], Undefined)
   \<and> main 5 env_many_extensions = UndefinedBehaviour"
    using missing_validation_layer_fatal_unless_overflow [OF enabled' missing', of 5] many
    by simp
  from requested enabled absent few first enabled' absent' many second
  show ?thesis by blast
qed

subsection \<open>No draw submission, no presentation\<close>

lemma noDrawCalls_Nil [simp]: "noDrawCalls []"
  by (simp add: noDrawCalls_def)

lemma noDrawCalls_append [simp]:
  "noDrawCalls (t @ t') \<longleftrightarrow> noDrawCalls t \<and> noDrawCalls t'"
  by (auto simp: noDrawCalls_def)

lemma noDrawCalls_andThen:
  assumes "noDrawCalls (fst m)" and "\<And>a. noDrawCalls (fst (f a))"
  shows "noDrawCalls (fst (andThen m f))"
  using assms by (cases m; cases "snd m") auto

lemma noDrawCalls_simple [simp]:
  "noDrawCalls (fst (throw msg))" "noDrawCalls (fst nothing)"
  "noDrawCalls (fst (emit (Create x)))" "noDrawCalls (fst (emit (Destroy x)))"
  "noDrawCalls (fst (emit (AllocateCommandBuffers n)))"
  "noDrawCalls (fst (emit (RecordCommandBuffer i)))"
  by (simp_all add: noDrawCalls_def throw_def nothing_def emit_def)

lemma noDrawCalls_createImageviews_loop: "noDrawCalls (fst (createImageviews_loop env is))"
  by (induction "is") (auto intro!: noDrawCalls_andThen)

lemma noDrawCalls_createFramebuffers_loop: "noDrawCalls (fst (createFramebuffers_loop env is))"
  by (induction "is") (auto intro!: noDrawCalls_andThen)

lemma noDrawCalls_createCommandBuffers_loop:
  "noDrawCalls (fst (createCommandBuffers_loop env is))"
  by (induction "is") (auto intro!: noDrawCalls_andThen)

lemma noDrawCalls_createGraphicsPipeline: "noDrawCalls (fst (createGraphicsPipeline env))"
  unfolding createGraphicsPipeline_def
  by (intro noDrawCalls_andThen) (simp_all add: readFile_def createShaderModule_def)

lemma noDrawCalls_createSwapChain: "noDrawCalls (fst (createSwapChain env physicalDevice))"
  by (auto simp: createSwapChain_def Let_def noDrawCalls_def emit_def throw_def
      split: option.splits sum.splits)

lemma noDrawCalls_initVulkan: "noDrawCalls (fst (initVulkan env))"
  unfolding initVulkan_def
  by (intro noDrawCalls_andThen)
    (simp_all add: printExtensions_def createInstance_def setupDebugMessenger_def
      createSurface_def createLogicalDevice_def createImageviews_def createRenderPass_def
      createFramebuffers_def createCommandPool_def createCommandBuffers_def
      noDrawCalls_createImageviews_loop noDrawCalls_createFramebuffers_loop
      noDrawCalls_createCommandBuffers_loop noDrawCalls_createGraphicsPipeline
      noDrawCalls_createSwapChain noDrawCalls_andThen
      split: sum.splits)

lemma noDrawCalls_startup: "noDrawCalls (fst (startup env))"
  unfolding startup_def
proof (rule noDrawCalls_andThen)
  show "noDrawCalls (fst initWindow)"
    by (simp add: initWindow_eq noDrawCalls_def)
  show "noDrawCalls (fst (initVulkan env))" for a :: unit
    by (rule noDrawCalls_initVulkan)
qed

lemma mainLoop_only_polls: "set (fst (mainLoop fuel env k)) \<subseteq> {PollEvents}"
proof (induction fuel arbitrary: k)
  case 0
  show ?case by simp
next
  case (Suc fuel)
  show ?case
    using Suc[of "Suc k"] by (cases "mainLoop fuel env (Suc k)") auto
qed

lemma noDrawCalls_mainLoop: "noDrawCalls (fst (mainLoop fuel env k))"
  using mainLoop_only_polls[of fuel env k] by (auto simp: noDrawCalls_def)

lemma noDrawCalls_cleanup: "noDrawCalls (cleanup env n)"
  by (auto simp: cleanup_def noDrawCalls_def)

lemma noDrawCalls_run: "noDrawCalls (fst (run fuel env))"
  using noDrawCalls_startup[of env] noDrawCalls_mainLoop[of fuel env 0]
    noDrawCalls_cleanup[of env]
  by (auto simp: run_def split: prod.splits sum.splits bool.splits)

text \<open>
  C9: in every iteration of the main event loop the program only polls the platform
  events and tests the close flag of the window, so the loop, however long it runs,
  produces nothing but polls; and no run, finished or not, ever submits a command
  buffer or presents a frame.
\<close>

theorem no_submission_no_presentation:
  "set (fst (mainLoop fuel env k)) \<subseteq> {PollEvents}
   \<and> QueueSubmit \<notin> set (fst (run fuel env))
   \<and> QueuePresent \<notin> set (fst (run fuel env))"
  using mainLoop_only_polls[of fuel env k] noDrawCalls_run[of fuel env]
  by (simp add: noDrawCalls_def)

theorem no_submission_no_presentation_witness:
  "fst (mainLoop 3 env_release 0) = [PollEvents, PollEvents]
   \<and> snd (run 3 env_release) = Returned
   \<and> QueueSubmit \<notin> set (fst (run 3 env_release))
   \<and> QueuePresent \<notin> set (fst (run 3 env_release))"
  using no_submission_no_presentation [of 3 env_release 0]
  by (simp add: mainLoop_env_release run_env_release)

subsection \<open>Optional access\<close>

lemma pickPhysicalDevice_loop_suitable:
  "pickPhysicalDevice_loop devices = Some physicalDevice \<Longrightarrow> isDeviceSuitable physicalDevice"
  by (induction devices) (auto split: if_splits)

lemma pickPhysicalDevice_suitable:
  "pickPhysicalDevice devices = Inr physicalDevice \<Longrightarrow> isDeviceSuitable physicalDevice"
  by (auto simp: pickPhysicalDevice_def pickPhysicalDevice_loop_suitable
      split: if_splits option.splits)

lemma isDeviceSuitable_complete:
  "isDeviceSuitable physicalDevice \<Longrightarrow> isComplete (findQueueFamilies physicalDevice)"
  by (simp add: isDeviceSuitable_def Let_def)

lemma isDeviceSuitable_formats:
  "isDeviceSuitable physicalDevice \<Longrightarrow> formats physicalDevice \<noteq> []"
  by (auto simp: isDeviceSuitable_def Let_def split: if_splits)

lemma chooseSwapSurfaceFormat_nonempty:
  "availableFormats \<noteq> [] \<Longrightarrow> chooseSwapSurfaceFormat availableFormats \<noteq> None"
  by (auto simp: chooseSwapSurfaceFormat_def split: option.splits list.splits)

lemma createSwapChain_defined:
  assumes "pickPhysicalDevice devices = Inr physicalDevice"
  shows "snd (createSwapChain env physicalDevice) \<noteq> Inl undefined_behaviour"
proof -
  have "formats physicalDevice \<noteq> []"
    using assms by (auto dest: pickPhysicalDevice_suitable isDeviceSuitable_formats)
  then obtain surfaceFormat
    where "chooseSwapSurfaceFormat (formats physicalDevice) = Some surfaceFormat"
    using chooseSwapSurfaceFormat_nonempty by blast
  moreover have "swapChainSharing physicalDevice \<noteq> Inl undefined_behaviour"
    by (auto simp: swapChainSharing_def optional_value_def Let_def split: option.splits)
  ultimately show ?thesis
    by (auto simp: createSwapChain_def Let_def throw_def emit_def split: sum.splits)
qed

lemma isComplete_values:
  assumes "isComplete indices"
  obtains g p where "graphicsFamily indices = Some g" and "presentFamily indices = Some p"
  using assms by (auto simp: isComplete_def)

lemma complete_deviceCreateInfo:
  assumes "isComplete (findQueueFamilies physicalDevice)"
  shows "\<exists>createInfo. deviceCreateInfo validation physicalDevice = Inr createInfo"
  using assms
  by (auto simp: deviceCreateInfo_def uniqueQueueFamilies_def optional_value_def Let_def
      elim!: isComplete_values)

lemma complete_swapChainSharing:
  assumes "isComplete (findQueueFamilies physicalDevice)"
  shows "\<exists>sharing. swapChainSharing physicalDevice = Inr sharing"
  using assms
  by (auto simp: swapChainSharing_def optional_value_def Let_def elim!: isComplete_values)

lemma complete_commandPoolQueueFamily:
  assumes "isComplete (findQueueFamilies physicalDevice)"
  shows "\<exists>family. commandPoolQueueFamily physicalDevice = Inr family"
  using assms
  by (auto simp: commandPoolQueueFamily_def optional_value_def Let_def
      elim!: isComplete_values)

lemma andThen_no_bad_access:
  assumes "snd m \<noteq> Inl bad_optional_access"
    and "\<And>t a. m = (t, Inr a) \<Longrightarrow> snd (f a) \<noteq> Inl bad_optional_access"
  shows "snd (andThen m f) \<noteq> Inl bad_optional_access"
  using assms by (cases m; cases "snd m") auto

lemma simple_no_bad_access [simp]:
  "snd (throw msg) \<noteq> Inl bad_optional_access"
  "snd (emit e) \<noteq> Inl bad_optional_access"
  "snd nothing \<noteq> Inl bad_optional_access"
  by (simp_all add: throw_def emit_def nothing_def)

lemma snd_andThen_emit [simp]: "snd (andThen (emit e) f) = snd (f ())"
  by (simp add: emit_def)

lemma createImageviews_loop_no_bad_access:
  "snd (createImageviews_loop env is) \<noteq> Inl bad_optional_access"
  by (induction "is") simp_all

lemma createFramebuffers_loop_no_bad_access:
  "snd (createFramebuffers_loop env is) \<noteq> Inl bad_optional_access"
  by (induction "is") simp_all

lemma createCommandBuffers_loop_no_bad_access:
  "snd (createCommandBuffers_loop env is) \<noteq> Inl bad_optional_access"
  by (induction "is") simp_all

lemma createGraphicsPipeline_no_bad_access:
  "snd (createGraphicsPipeline env) \<noteq> Inl bad_optional_access"
  unfolding createGraphicsPipeline_def
  by (intro andThen_no_bad_access) (simp_all add: readFile_def createShaderModule_def)

lemma createLogicalDevice_no_bad_access:
  assumes "isComplete (findQueueFamilies physicalDevice)"
  shows "snd (createLogicalDevice env physicalDevice) \<noteq> Inl bad_optional_access"
  using complete_deviceCreateInfo[OF assms, of "enableValidationLayers env"]
  by (auto simp: createLogicalDevice_def)

lemma createSwapChain_no_bad_access:
  assumes "isComplete (findQueueFamilies physicalDevice)"
  shows "snd (createSwapChain env physicalDevice) \<noteq> Inl bad_optional_access"
  using complete_swapChainSharing[OF assms]
  by (auto simp: createSwapChain_def Let_def throw_def emit_def split: option.splits)

lemma createCommandPool_no_bad_access:
  assumes "isComplete (findQueueFamilies physicalDevice)"
  shows "snd (createCommandPool env physicalDevice) \<noteq> Inl bad_optional_access"
  using complete_commandPoolQueueFamily[OF assms]
  by (auto simp: createCommandPool_def)

lemma pickPhysicalDevice_no_bad_access:
  "pickPhysicalDevice devices \<noteq> Inl bad_optional_access"
  by (simp add: pickPhysicalDevice_def split: option.splits)

lemma initVulkan_no_bad_access: "snd (initVulkan env) \<noteq> Inl bad_optional_access"
  unfolding initVulkan_def
proof (intro andThen_no_bad_access, goal_cases)
  case 1
  show ?case by (simp add: printExtensions_def)
next
  case 2
  show ?case by (simp add: createInstance_def)
next
  case 3
  show ?case by (simp add: setupDebugMessenger_def)
next
  case 4
  show ?case by (simp add: createSurface_def)
next
  case 5
  show ?case by (simp add: pickPhysicalDevice_no_bad_access)
next
  case (6 _ _ _ _ _ _ _ _ _ physicalDevice)
  then have "isComplete (findQueueFamilies physicalDevice)"
    by (auto dest: pickPhysicalDevice_suitable isDeviceSuitable_complete)
  then show ?case by (rule createLogicalDevice_no_bad_access)
next
  case (7 _ _ _ _ _ _ _ _ _ physicalDevice)
  then have "isComplete (findQueueFamilies physicalDevice)"
    by (auto dest: pickPhysicalDevice_suitable isDeviceSuitable_complete)
  then show ?case by (rule createSwapChain_no_bad_access)
next
  case 8
  show ?case by (simp add: createImageviews_def createImageviews_loop_no_bad_access)
next
  case 9
  show ?case by (simp add: createRenderPass_def)
next
  case 10
  show ?case by (rule createGraphicsPipeline_no_bad_access)
next
  case 11
  show ?case by (simp add: createFramebuffers_def createFramebuffers_loop_no_bad_access)
next
  case (12 _ _ _ _ _ _ _ _ _ physicalDevice)
  then have "isComplete (findQueueFamilies physicalDevice)"
    by (auto dest: pickPhysicalDevice_suitable isDeviceSuitable_complete)
  then show ?case by (rule createCommandPool_no_bad_access)
next
  case 13
  show ?case
    by (simp add: createCommandBuffers_def createCommandBuffers_loop_no_bad_access)
next
  case 14
  show ?case by simp
qed

lemma run_no_bad_access: "snd (run fuel env) \<noteq> Threw bad_optional_access"
proof -
  have "snd (startup env) = snd (initVulkan env)"
    by (simp add: startup_def initWindow_eq)
  then have "snd (startup env) \<noteq> Inl bad_optional_access"
    using initVulkan_no_bad_access[of env] by simp
  then show ?thesis
    by (auto simp: run_def split: prod.splits sum.splits bool.splits)
qed

text \<open>
  C10: once \<^verbatim>\<open>pickPhysicalDevice\<close> has succeeded, the queue family indices of the
  selected device are complete, so each \<^verbatim>\<open>value()\<close> call of \<^verbatim>\<open>createLogicalDevice\<close>,
  \<^verbatim>\<open>createSwapChain\<close> and \<^verbatim>\<open>createCommandPool\<close> is on an optional that holds a value,
  and none of the three ends with \<^verbatim>\<open>bad_optional_access\<close>. As the program calls them
  only with the selected device, no run ends with that exception.
\<close>

theorem optional_access_after_pickPhysicalDevice:
  assumes "pickPhysicalDevice devices = Inr physicalDevice"
  shows "isComplete (findQueueFamilies physicalDevice)
       \<and> (\<exists>g p. optional_value (graphicsFamily (findQueueFamilies physicalDevice)) = Inr g
               \<and> optional_value (presentFamily (findQueueFamilies physicalDevice)) = Inr p)
       \<and> (\<exists>createInfo. deviceCreateInfo validation physicalDevice = Inr createInfo)
       \<and> (\<exists>sharing. swapChainSharing physicalDevice = Inr sharing)
       \<and> (\<exists>family. commandPoolQueueFamily physicalDevice = Inr family)
       \<and> snd (createLogicalDevice env physicalDevice) \<noteq> Inl bad_optional_access
       \<and> snd (createSwapChain env physicalDevice) \<noteq> Inl bad_optional_access
       \<and> snd (createCommandPool env physicalDevice) \<noteq> Inl bad_optional_access
       \<and> snd (run fuel env) \<noteq> Threw bad_optional_access"
proof -
  have complete: "isComplete (findQueueFamilies physicalDevice)"
    using assms by (auto dest: pickPhysicalDevice_suitable isDeviceSuitable_complete)
  then have "\<exists>g p. optional_value (graphicsFamily (findQueueFamilies physicalDevice)) = Inr g
               \<and> optional_value (presentFamily (findQueueFamilies physicalDevice)) = Inr p"
    by (auto simp: optional_value_def elim!: isComplete_values)
  with complete show ?thesis
    using complete_deviceCreateInfo[OF complete, of validation]
      complete_swapChainSharing[OF complete]
      complete_commandPoolQueueFamily[OF complete]
      createLogicalDevice_no_bad_access[OF complete, of env]
      createSwapChain_no_bad_access[OF complete, of env]
      createCommandPool_no_bad_access[OF complete, of env]
      run_no_bad_access[of fuel env]
    by blast
qed

theorem optional_access_after_pickPhysicalDevice_witness:
  "pickPhysicalDevice [device_two_graphics, device_single_family] = Inr device_two_graphics
   \<and> isComplete (findQueueFamilies device_two_graphics)
   \<and> (\<exists>createInfo. deviceCreateInfo True device_two_graphics = Inr createInfo)
   \<and> (\<exists>sharing. swapChainSharing device_two_graphics = Inr sharing)
   \<and> (\<exists>family. commandPoolQueueFamily device_two_graphics = Inr family)
   \<and> snd (run 3 env_release) \<noteq> Threw bad_optional_access"
proof -
  have picked:
    "pickPhysicalDevice [device_two_graphics, device_single_family] = Inr device_two_graphics"
    by (simp add: pickPhysicalDevice_def isDeviceSuitable_def findQueueFamilies_def
        device_two_graphics_def VK_QUEUE_GRAPHICS_BIT_def isComplete_def
        checkDeviceExtensionSupport_def deviceExtensions_def formats_preferred_last_def
        Let_def)
  from picked optional_access_after_pickPhysicalDevice [OF picked, of True env_release 3]
  show ?thesis by blast
qed

subsection \<open>Creation and destruction order\<close>

lemma createImageviews_loop_events:
  "snd (createImageviews_loop env is) = Inr u
   \<Longrightarrow> fst (createImageviews_loop env is) = map (\<lambda>i. Create (ImageView i)) is"
  by (induction "is") (auto simp: nothing_def throw_def emit_def split: if_splits)

lemma createImageviews_loop_success:
  "createImageviews_loop env is = (t, Inr u) \<Longrightarrow> t = map (\<lambda>i. Create (ImageView i)) is"
  using createImageviews_loop_events[of env "is" u] by simp

lemma createFramebuffers_loop_events:
  "snd (createFramebuffers_loop env is) = Inr u
   \<Longrightarrow> fst (createFramebuffers_loop env is) = map (\<lambda>i. Create (Framebuffer i)) is"
  by (induction "is") (auto simp: nothing_def throw_def emit_def split: if_splits)

lemma createFramebuffers_loop_success:
  "createFramebuffers_loop env is = (t, Inr u) \<Longrightarrow> t = map (\<lambda>i. Create (Framebuffer i)) is"
  using createFramebuffers_loop_events[of env "is" u] by simp

lemma createCommandBuffers_loop_events:
  "snd (createCommandBuffers_loop env is) = Inr u
   \<Longrightarrow> fst (createCommandBuffers_loop env is) = map RecordCommandBuffer is"
  by (induction "is") (auto simp: nothing_def throw_def emit_def split: if_splits)

lemma createCommandBuffers_loop_success:
  "createCommandBuffers_loop env is = (t, Inr u) \<Longrightarrow> t = map RecordCommandBuffer is"
  using createCommandBuffers_loop_events[of env "is" u] by simp

lemma printExtensions_success:
  "printExtensions env = (t, Inr u) \<Longrightarrow> t = []"
  by (auto simp: printExtensions_def nothing_def split: if_splits)

lemma createInstance_success:
  "createInstance env = (t, Inr u) \<Longrightarrow> t = [Create Instance]"
  by (auto simp: createInstance_def throw_def emit_def split: if_splits)

lemma setupDebugMessenger_success:
  "setupDebugMessenger env = (t, Inr u) \<Longrightarrow>
     t = (if enableValidationLayers env then [Create DebugMessenger] else [])
     \<and> (enableValidationLayers env \<longrightarrow> debugUtilsFunctionsFound env)"
  by (auto simp: setupDebugMessenger_def throw_def emit_def nothing_def split: if_splits)

lemma createSurface_success:
  "createSurface env = (t, Inr u) \<Longrightarrow> t = [Create Surface]"
  by (auto simp: createSurface_def throw_def emit_def split: if_splits)

lemma createLogicalDevice_success:
  "createLogicalDevice env d = (t, Inr u) \<Longrightarrow> t = [Create LogicalDevice]"
  by (auto simp: createLogicalDevice_def throw_def emit_def split: if_splits sum.splits)

lemma createSwapChain_success:
  "createSwapChain env d = (t, Inr n) \<Longrightarrow> t = [Create Swapchain] \<and> n = swapChainImages env"
  by (auto simp: createSwapChain_def throw_def emit_def Let_def
      split: if_splits sum.splits option.splits)

lemma createRenderPass_success:
  "createRenderPass env = (t, Inr u) \<Longrightarrow> t = [Create RenderPass]"
  by (auto simp: createRenderPass_def throw_def emit_def split: if_splits)

lemma createGraphicsPipeline_success:
  "createGraphicsPipeline env = (t, Inr u) \<Longrightarrow>
     t = [Create (ShaderModule vert), Create (ShaderModule frag),
          Create PipelineLayout, Create Pipeline,
          Destroy (ShaderModule frag), Destroy (ShaderModule vert)]"
  unfolding createGraphicsPipeline_def
  by (elim andThen_success)
    (auto simp: readFile_def createShaderModule_def throw_def emit_def nothing_def
      split: if_splits)

lemma createCommandPool_success:
  "createCommandPool env d = (t, Inr u) \<Longrightarrow> t = [Create CommandPool]"
  by (auto simp: createCommandPool_def throw_def emit_def split: if_splits sum.splits)

lemma createCommandBuffers_success:
  "createCommandBuffers env n = (t, Inr u) \<Longrightarrow>
     t = AllocateCommandBuffers n # map RecordCommandBuffer [0..<n]"
  by (auto simp: createCommandBuffers_def throw_def emit_def split: if_splits
      dest: createCommandBuffers_loop_events)

lemma initVulkan_success:
  assumes "initVulkan env = (t, Inr n)"
  shows "n = swapChainImages env
       \<and> (enableValidationLayers env \<longrightarrow> debugUtilsFunctionsFound env)
       \<and> [Create GlfwLibrary, Create Window] @ t = startupEvents (enableValidationLayers env) n"
  using assms unfolding initVulkan_def
  apply (elim andThen_success)
  apply (drule printExtensions_success createInstance_success setupDebugMessenger_success
      createSurface_success
      createLogicalDevice_success createSwapChain_success createRenderPass_success
      createGraphicsPipeline_success createCommandPool_success createCommandBuffers_success)+
  apply (simp add: createImageviews_def createFramebuffers_def)
  apply (drule createImageviews_loop_success createFramebuffers_loop_success)+
  apply (auto simp: startupEvents_def)
  done

lemma startup_success:
  assumes "startup env = (t, Inr n)"
  shows "n = swapChainImages env
       \<and> (enableValidationLayers env \<longrightarrow> debugUtilsFunctionsFound env)
       \<and> t = startupEvents (enableValidationLayers env) n"
proof -
  have "startup env =
          ([Create GlfwLibrary, Create Window] @ fst (initVulkan env), snd (initVulkan env))"
    by (simp add: startup_def initWindow_eq)
  with assms have t: "t = [Create GlfwLibrary, Create Window] @ fst (initVulkan env)"
    and "snd (initVulkan env) = Inr n"
    by simp_all
  then have t': "initVulkan env = (fst (initVulkan env), Inr n)"
    by (simp add: prod_eq_iff)
  from initVulkan_success[OF t'] t show ?thesis by simp
qed

lemma run_Returned:
  assumes "run fuel env = (t, Returned)"
  shows "startup env =
           (startupEvents (enableValidationLayers env) (swapChainImages env),
            Inr (swapChainImages env))"
    and "enableValidationLayers env \<longrightarrow> debugUtilsFunctionsFound env"
    and "t = startupEvents (enableValidationLayers env) (swapChainImages env)
             @ fst (mainLoop fuel env 0) @ cleanup env (swapChainImages env)"
proof -
  obtain ts r where s: "startup env = (ts, r)"
    by (cases "startup env")
  with assms obtain n where r: "r = Inr n"
    by (cases r) (auto simp: run_def split: if_splits)
  note ok = startup_success[OF s[unfolded r]]
  from ok s r show "startup env =
           (startupEvents (enableValidationLayers env) (swapChainImages env),
            Inr (swapChainImages env))"
    by simp
  from ok show "enableValidationLayers env \<longrightarrow> debugUtilsFunctionsFound env"
    by simp
  from assms s r ok
  show "t = startupEvents (enableValidationLayers env) (swapChainImages env)
             @ fst (mainLoop fuel env 0) @ cleanup env (swapChainImages env)"
    by (auto simp: run_def split: prod.splits bool.splits)
qed

lemma created_append [simp]: "created (t @ t') = created t @ created t'"
  by (induction t rule: created.induct) simp_all

lemma destroyed_append [simp]: "destroyed (t @ t') = destroyed t @ destroyed t'"
  by (induction t rule: destroyed.induct) simp_all

lemma created_map [simp]:
  "created (map (\<lambda>i. Create (f i)) is) = map f is"
  "created (map (\<lambda>i. Destroy (f i)) is) = []"
  "created (map RecordCommandBuffer is) = []"
  by (induction "is") simp_all

lemma destroyed_map [simp]:
  "destroyed (map (\<lambda>i. Destroy (f i)) is) = map f is"
  "destroyed (map (\<lambda>i. Create (f i)) is) = []"
  "destroyed (map RecordCommandBuffer is) = []"
  by (induction "is") simp_all

lemma remdups_adj_replicate_between:
  "0 < n \<Longrightarrow> remdups_adj (xs @ replicate n x @ ys) = remdups_adj (xs @ x # ys)"
proof (induction n arbitrary: xs)
  case 0
  then show ?case by simp
next
  case (Suc n)
  show ?case
  proof (cases "n = 0")
    case True
    then show ?thesis by simp
  next
    case False
    then have "remdups_adj ((xs @ [x]) @ replicate n x @ ys) = remdups_adj ((xs @ [x]) @ x # ys)"
      using Suc.IH[of "xs @ [x]"] by simp
    also have "\<dots> = remdups_adj (xs @ x # ys)"
      by (simp add: remdups_adj_append[of xs x "x # ys"] remdups_adj_append[of xs x ys])
    finally show ?thesis by simp
  qed
qed

lemma destructionOrder_cleanup:
  "destructionOrder (cleanup env n) =
     [TheCommandPool] @ (if n = 0 then [] else [Framebuffers])
     @ [ThePipeline, ThePipelineLayout, TheRenderPass]
     @ (if n = 0 then [] else [ImageViews])
     @ [TheSwapchain, TheLogicalDevice]
     @ (if enableValidationLayers env \<and> debugUtilsFunctionsFound env
        then [TheDebugMessenger] else [])
     @ [TheSurface, TheInstance, TheWindow, WindowingLibraryState]"
proof (cases "n = 0")
  case True
  then show ?thesis
    by (simp add: destructionOrder_def cleanup_def)
next
  case False
  then have n: "0 < n" by simp
  have "remdups_adj (map resourceOf (destroyed (cleanup env n))) =
      remdups_adj ([TheCommandPool] @ replicate n Framebuffers
      @ ([ThePipeline, ThePipelineLayout, TheRenderPass] @ replicate n ImageViews
      @ ([TheSwapchain, TheLogicalDevice]
      @ (if enableValidationLayers env \<and> debugUtilsFunctionsFound env
        then [TheDebugMessenger] else [])
      @ [TheSurface, TheInstance, TheWindow, WindowingLibraryState])))"
    by (simp add: cleanup_def comp_def map_replicate_const)
  also have "\<dots> =
      remdups_adj ([TheCommandPool] @ Framebuffers
        # ([ThePipeline, ThePipelineLayout, TheRenderPass] @ replicate n ImageViews
      @ ([TheSwapchain, TheLogicalDevice]
      @ (if enableValidationLayers env \<and> debugUtilsFunctionsFound env
        then [TheDebugMessenger] else [])
      @ [TheSurface, TheInstance, TheWindow, WindowingLibraryState])))"
    by (rule remdups_adj_replicate_between[OF n])
  also have "\<dots> =
      remdups_adj ([TheCommandPool, Framebuffers, ThePipeline, ThePipelineLayout,
                    TheRenderPass] @ replicate n ImageViews
      @ ([TheSwapchain, TheLogicalDevice]
      @ (if enableValidationLayers env \<and> debugUtilsFunctionsFound env
        then [TheDebugMessenger] else [])
      @ [TheSurface, TheInstance, TheWindow, WindowingLibraryState]))"
    by simp
  also have "\<dots> =
      remdups_adj ([TheCommandPool, Framebuffers, ThePipeline, ThePipelineLayout,
                    TheRenderPass] @ ImageViews
      # ([TheSwapchain, TheLogicalDevice]
      @ (if enableValidationLayers env \<and> debugUtilsFunctionsFound env
        then [TheDebugMessenger] else [])
      @ [TheSurface, TheInstance, TheWindow, WindowingLibraryState]))"
    by (rule remdups_adj_replicate_between[OF n])
  finally show ?thesis
    using n by (simp add: destructionOrder_def)
qed

lemma creationOrder_startupEvents:
  "creationOrder (startupEvents validation n) =
     [WindowingLibraryState, TheWindow, TheInstance]
     @ (if validation then [TheDebugMessenger] else [])
     @ [TheSurface, TheLogicalDevice, TheSwapchain]
     @ (if n = 0 then [] else [ImageViews])
     @ [TheRenderPass, ThePipelineLayout, ThePipeline]
     @ (if n = 0 then [] else [Framebuffers])
     @ [TheCommandPool]"
proof (cases "n = 0")
  case True
  then show ?thesis
    by (simp add: creationOrder_def liveObjects_def startupEvents_def)
next
  case False
  then have n: "0 < n" by simp
  have "remdups_adj (map resourceOf (liveObjects (startupEvents validation n))) =
      remdups_adj (([WindowingLibraryState, TheWindow, TheInstance]
        @ (if validation then [TheDebugMessenger] else [])
        @ [TheSurface, TheLogicalDevice, TheSwapchain]) @ replicate n ImageViews
      @ ([TheRenderPass, ThePipelineLayout, ThePipeline] @ replicate n Framebuffers
      @ [TheCommandPool]))"
    by (simp add: liveObjects_def startupEvents_def comp_def map_replicate_const
        filter_map)
  also have "\<dots> =
      remdups_adj (([WindowingLibraryState, TheWindow, TheInstance]
        @ (if validation then [TheDebugMessenger] else [])
        @ [TheSurface, TheLogicalDevice, TheSwapchain]) @ ImageViews
      # ([TheRenderPass, ThePipelineLayout, ThePipeline] @ replicate n Framebuffers
      @ [TheCommandPool]))"
    by (rule remdups_adj_replicate_between[OF n])
  also have "\<dots> =
      remdups_adj (([WindowingLibraryState, TheWindow, TheInstance]
        @ (if validation then [TheDebugMessenger] else [])
        @ [TheSurface, TheLogicalDevice, TheSwapchain, ImageViews,
           TheRenderPass, ThePipelineLayout, ThePipeline]) @ replicate n Framebuffers
      @ [TheCommandPool])"
    by simp
  also have "\<dots> =
      remdups_adj (([WindowingLibraryState, TheWindow, TheInstance]
        @ (if validation then [TheDebugMessenger] else [])
        @ [TheSurface, TheLogicalDevice, TheSwapchain, ImageViews,
           TheRenderPass, ThePipelineLayout, ThePipeline]) @ Framebuffers
      # [TheCommandPool])"
    by (rule remdups_adj_replicate_between[OF n])
  finally show ?thesis
    using n by (simp add: creationOrder_def)
qed

lemma precedes_iff:
  "precedes a b t \<longleftrightarrow> (\<exists>xs ys. t = xs @ a # ys \<and> b \<in> set ys)"
proof (induction t)
  case Nil
  show ?case by simp
next
  case (Cons e t)
  show ?case
  proof
    assume "precedes a b (e # t)"
    then consider "e = a" "b \<in> set t" | "precedes a b t" by auto
    then show "\<exists>xs ys. e # t = xs @ a # ys \<and> b \<in> set ys"
    proof cases
      case 1
      then have "e # t = [] @ a # t \<and> b \<in> set t" by simp
      then show ?thesis by blast
    next
      case 2
      with Cons.IH obtain xs ys where "t = xs @ a # ys" "b \<in> set ys" by blast
      then have "e # t = (e # xs) @ a # ys \<and> b \<in> set ys" by simp
      then show ?thesis by blast
    qed
  next
    assume "\<exists>xs ys. e # t = xs @ a # ys \<and> b \<in> set ys"
    then obtain xs ys where eq: "e # t = xs @ a # ys" and b: "b \<in> set ys" by blast
    show "precedes a b (e # t)"
    proof (cases xs)
      case Nil
      with eq b show ?thesis by simp
    next
      case (Cons x xs')
      with eq have "t = xs' @ a # ys" by simp
      with b Cons.IH show ?thesis by auto
    qed
  qed
qed

lemma precedes_split:
  "a \<in> set xs \<Longrightarrow> b \<in> set ys \<Longrightarrow> precedes a b (xs @ ys)"
proof -
  assume "a \<in> set xs" and b: "b \<in> set ys"
  then obtain us vs where "xs = us @ a # vs"
    by (auto simp: in_set_conv_decomp)
  then have "xs @ ys = us @ a # (vs @ ys) \<and> b \<in> set (vs @ ys)"
    using b by simp
  then show ?thesis unfolding precedes_iff by blast
qed

lemma precedes_after_unique:
  assumes "precedes a b (xs @ a # ys)" and "a \<notin> set xs" and "a \<notin> set ys"
  shows "b \<in> set ys"
proof -
  from assms(1) obtain us vs where eq: "xs @ a # ys = us @ a # vs" and b: "b \<in> set vs"
    unfolding precedes_iff by blast
  from eq assms(2,3) have "vs = ys"
    by (auto simp: append_eq_append_conv2 append_eq_Cons_conv Cons_eq_append_conv)
  with b show ?thesis by simp
qed

lemma created_after_device_destroyed_before:
  fixes validation :: bool and n :: nat and env :: Environment and loopEvents :: "event list"
  assumes loop: "set loopEvents \<subseteq> {PollEvents}"
    and t: "t = startupEvents validation n @ loopEvents @ cleanup env n"
    and before: "precedes (Create LogicalDevice) (Create x) t"
  shows "precedes (Destroy x) (Destroy LogicalDevice) t"
proof -
  define pre where "pre =
     [Create GlfwLibrary, Create Window, Create Instance]
     @ (if validation then [Create DebugMessenger] else []) @ [Create Surface]"
  define post where "post =
     [Create Swapchain] @ map (\<lambda>i. Create (ImageView i)) [0..<n]
     @ [Create RenderPass, Create (ShaderModule vert), Create (ShaderModule frag),
        Create PipelineLayout, Create Pipeline,
        Destroy (ShaderModule frag), Destroy (ShaderModule vert)]
     @ map (\<lambda>i. Create (Framebuffer i)) [0..<n]
     @ [Create CommandPool, AllocateCommandBuffers n]
     @ map RecordCommandBuffer [0..<n]"
  define early where "early =
     [Destroy CommandPool] @ map (\<lambda>i. Destroy (Framebuffer i)) [0..<n]
     @ [Destroy Pipeline, Destroy PipelineLayout, Destroy RenderPass]
     @ map (\<lambda>i. Destroy (ImageView i)) [0..<n] @ [Destroy Swapchain]"
  define late where "late =
     (if enableValidationLayers env \<and> debugUtilsFunctionsFound env
      then [Destroy DebugMessenger] else [])
     @ [Destroy Surface, Destroy Instance, Destroy Window, Destroy GlfwLibrary]"
  have t1: "t = pre @ Create LogicalDevice # (post @ loopEvents @ early
                  @ Destroy LogicalDevice # late)"
    by (simp add: t startupEvents_def cleanup_def pre_def post_def early_def late_def)
  have t2: "t = (pre @ Create LogicalDevice # post @ loopEvents @ early)
                @ (Destroy LogicalDevice # late)"
    by (simp add: t1)
  have "Create LogicalDevice \<notin> set pre"
    by (simp add: pre_def)
  moreover have "Create LogicalDevice \<notin> set (post @ loopEvents @ early
                  @ Destroy LogicalDevice # late)"
    using loop by (auto simp: post_def early_def late_def)
  ultimately have "Create x \<in> set (post @ loopEvents @ early @ Destroy LogicalDevice # late)"
    using precedes_after_unique[OF before[unfolded t1]] by blast
  then have "Create x \<in> set post"
    using loop by (auto simp: early_def late_def)
  then have "Destroy x \<in> set (post @ early)"
    by (auto simp: post_def early_def)
  then have "Destroy x \<in> set (pre @ Create LogicalDevice # post @ loopEvents @ early)"
    by auto
  then show ?thesis
    unfolding t2 by (rule precedes_split) simp
qed

lemma precedes_embed:
  assumes "precedes a b t"
  shows "precedes a b (xs @ t @ ys)"
proof -
  from assms obtain us vs where "t = us @ a # vs" and "b \<in> set vs"
    unfolding precedes_iff by blast
  then have "xs @ t @ ys = (xs @ us) @ a # (vs @ ys) \<and> b \<in> set (vs @ ys)"
    by simp
  then show ?thesis unfolding precedes_iff by blast
qed

lemma cleanup_precedes:
  "precedes (Destroy LogicalDevice) (Destroy Instance) (cleanup env n)"
  "precedes (Destroy Swapchain) (Destroy Surface) (cleanup env n)"
  "precedes (Destroy Surface) (Destroy Instance) (cleanup env n)"
proof -
  define early where "early =
     [Destroy CommandPool] @ map (\<lambda>i. Destroy (Framebuffer i)) [0..<n]
     @ [Destroy Pipeline, Destroy PipelineLayout, Destroy RenderPass]
     @ map (\<lambda>i. Destroy (ImageView i)) [0..<n]"
  define messenger where "messenger =
     (if enableValidationLayers env \<and> debugUtilsFunctionsFound env
      then [Destroy DebugMessenger] else [])"
  have c1: "cleanup env n = (early @ [Destroy Swapchain, Destroy LogicalDevice])
          @ (messenger @ [Destroy Surface, Destroy Instance, Destroy Window,
                          Destroy GlfwLibrary])"
    by (simp add: cleanup_def early_def messenger_def)
  show "precedes (Destroy LogicalDevice) (Destroy Instance) (cleanup env n)"
    by (subst c1, rule precedes_split) simp_all
  show "precedes (Destroy Swapchain) (Destroy Surface) (cleanup env n)"
    by (subst c1, rule precedes_split) simp_all
  have c2: "cleanup env n = (early @ [Destroy Swapchain, Destroy LogicalDevice]
          @ messenger @ [Destroy Surface])
          @ [Destroy Instance, Destroy Window, Destroy GlfwLibrary]"
    by (simp add: cleanup_def early_def messenger_def)
  show "precedes (Destroy Surface) (Destroy Instance) (cleanup env n)"
    by (subst c2, rule precedes_split) simp_all
qed

lemma teardown_precedes:
  assumes t: "t = startupEvents validation n @ loopEvents @ cleanup env n"
  shows "precedes (Destroy LogicalDevice) (Destroy Instance) t"
    and "precedes (Destroy Swapchain) (Destroy Surface) t"
    and "precedes (Destroy Surface) (Destroy Instance) t"
  using cleanup_precedes[of env n, THEN precedes_embed,
      of "startupEvents validation n @ loopEvents" "[]"]
  by (simp_all add: t)

text \<open>
  C7, as stated, fails. In a complete run of a debug build the debug messenger is
  created before the surface and is also destroyed before the surface, so the order of
  destruction is not the reverse of the order of creation.
\<close>

theorem cleanup_not_reverse_of_creation_counterexample:
  "snd (run 3 env_debug) = Returned
   \<and> creationOrder (fst (startup env_debug)) =
       [WindowingLibraryState, TheWindow, TheInstance, TheDebugMessenger, TheSurface,
        TheLogicalDevice, TheSwapchain, ImageViews, TheRenderPass, ThePipelineLayout,
        ThePipeline, Framebuffers, TheCommandPool]
   \<and> destructionOrder (cleanup env_debug (swapChainImages env_debug)) =
       [TheCommandPool, Framebuffers, ThePipeline, ThePipelineLayout, TheRenderPass,
        ImageViews, TheSwapchain, TheLogicalDevice, TheDebugMessenger, TheSurface,
        TheInstance, TheWindow, WindowingLibraryState]
   \<and> destructionOrder (cleanup env_debug (swapChainImages env_debug))
       \<noteq> rev (creationOrder (fst (startup env_debug)))"
proof -
  have "enableValidationLayers env_debug" "debugUtilsFunctionsFound env_debug"
    "swapChainImages env_debug = 2"
    by (simp_all add: env_debug_def env_release_def)
  then show ?thesis
    by (simp add: run_env_debug startup_env_debug creationOrder_startupEvents
        destructionOrder_cleanup)
qed

text \<open>
  C7, amended: in every complete run, \<^verbatim>\<open>cleanup\<close> destroys the resources in the order
  command pool, framebuffers, pipeline, pipeline layout, render pass, image views,
  swapchain, logical device, debug messenger (if created), surface, instance, window,
  then the process-wide state of the windowing library. Without validation layers this
  is exactly the reverse of the order of creation; with them it is the reverse of the
  order of creation except that the debug messenger, created before the surface, is
  destroyed before it. In both cases every entity created after the logical device is
  destroyed before it, the logical device is destroyed before the instance, and the
  surface is destroyed after the swapchain and before the instance.
\<close>

theorem cleanup_order_amended:
  assumes "run fuel env = (t, Returned)"
  shows "t = fst (startup env) @ fst (mainLoop fuel env 0)
               @ cleanup env (swapChainImages env)
       \<and> destructionOrder (cleanup env (swapChainImages env)) =
           [TheCommandPool] @ (if swapChainImages env = 0 then [] else [Framebuffers])
           @ [ThePipeline, ThePipelineLayout, TheRenderPass]
           @ (if swapChainImages env = 0 then [] else [ImageViews])
           @ [TheSwapchain, TheLogicalDevice]
           @ (if enableValidationLayers env then [TheDebugMessenger] else [])
           @ [TheSurface, TheInstance, TheWindow, WindowingLibraryState]
       \<and> (\<not> enableValidationLayers env \<longrightarrow>
            destructionOrder (cleanup env (swapChainImages env))
              = rev (creationOrder (fst (startup env))))
       \<and> (enableValidationLayers env \<longrightarrow>
            rev (creationOrder (fst (startup env))) =
              [TheCommandPool] @ (if swapChainImages env = 0 then [] else [Framebuffers])
              @ [ThePipeline, ThePipelineLayout, TheRenderPass]
              @ (if swapChainImages env = 0 then [] else [ImageViews])
              @ [TheSwapchain, TheLogicalDevice, TheSurface, TheDebugMessenger,
                 TheInstance, TheWindow, WindowingLibraryState])
       \<and> (\<forall>x. precedes (Create LogicalDevice) (Create x) t
              \<longrightarrow> precedes (Destroy x) (Destroy LogicalDevice) t)
       \<and> precedes (Destroy LogicalDevice) (Destroy Instance) t
       \<and> precedes (Destroy Swapchain) (Destroy Surface) t
       \<and> precedes (Destroy Surface) (Destroy Instance) t"
proof -
  note r = run_Returned[OF assms]
  have s: "fst (startup env) = startupEvents (enableValidationLayers env) (swapChainImages env)"
    using r(1) by simp
  have t: "t = startupEvents (enableValidationLayers env) (swapChainImages env)
             @ fst (mainLoop fuel env 0) @ cleanup env (swapChainImages env)"
    by (rule r(3))
  have 1: "t = fst (startup env) @ fst (mainLoop fuel env 0)
               @ cleanup env (swapChainImages env)"
    using t s by simp
  have 2: "destructionOrder (cleanup env (swapChainImages env)) =
           [TheCommandPool] @ (if swapChainImages env = 0 then [] else [Framebuffers])
           @ [ThePipeline, ThePipelineLayout, TheRenderPass]
           @ (if swapChainImages env = 0 then [] else [ImageViews])
           @ [TheSwapchain, TheLogicalDevice]
           @ (if enableValidationLayers env then [TheDebugMessenger] else [])
           @ [TheSurface, TheInstance, TheWindow, WindowingLibraryState]"
    using r(2) by (simp add: destructionOrder_cleanup)
  have 3: "\<not> enableValidationLayers env \<longrightarrow>
            destructionOrder (cleanup env (swapChainImages env))
              = rev (creationOrder (fst (startup env)))"
    by (simp add: s destructionOrder_cleanup creationOrder_startupEvents)
  have 4: "enableValidationLayers env \<longrightarrow>
            rev (creationOrder (fst (startup env))) =
              [TheCommandPool] @ (if swapChainImages env = 0 then [] else [Framebuffers])
              @ [ThePipeline, ThePipelineLayout, TheRenderPass]
              @ (if swapChainImages env = 0 then [] else [ImageViews])
              @ [TheSwapchain, TheLogicalDevice, TheSurface, TheDebugMessenger,
                 TheInstance, TheWindow, WindowingLibraryState]"
    by (simp add: s creationOrder_startupEvents)
  have 5: "\<forall>x. precedes (Create LogicalDevice) (Create x) t
              \<longrightarrow> precedes (Destroy x) (Destroy LogicalDevice) t"
    using created_after_device_destroyed_before[OF mainLoop_only_polls t] by blast
  from 1 2 3 4 5 teardown_precedes[OF t] show ?thesis by blast
qed

theorem cleanup_order_amended_witness:
  "run 3 env_release =
     (startupEvents False 2 @ [PollEvents, PollEvents] @ cleanup env_release 2, Returned)
   \<and> \<not> enableValidationLayers env_release
   \<and> destructionOrder (cleanup env_release (swapChainImages env_release)) =
       [TheCommandPool, Framebuffers, ThePipeline, ThePipelineLayout, TheRenderPass,
        ImageViews, TheSwapchain, TheLogicalDevice, TheSurface, TheInstance, TheWindow,
        WindowingLibraryState]
   \<and> destructionOrder (cleanup env_release (swapChainImages env_release))
       = rev (creationOrder (fst (startup env_release)))
   \<and> precedes (Create LogicalDevice) (Create Pipeline) (fst (run 3 env_release))
   \<and> precedes (Destroy Pipeline) (Destroy LogicalDevice) (fst (run 3 env_release))
   \<and> precedes (Destroy LogicalDevice) (Destroy Instance) (fst (run 3 env_release))
   \<and> precedes (Destroy Swapchain) (Destroy Surface) (fst (run 3 env_release))
   \<and> precedes (Destroy Surface) (Destroy Instance) (fst (run 3 env_release))"
proof -
  have off: "\<not> enableValidationLayers env_release" and n: "swapChainImages env_release = 2"
    by (simp_all add: env_release_def)
  have t: "fst (run 3 env_release) =
      startupEvents False 2 @ [PollEvents, PollEvents] @ cleanup env_release 2"
    by (simp add: run_env_release)
  have created: "precedes (Create LogicalDevice) (Create Pipeline) (fst (run 3 env_release))"
    by (simp add: t startupEvents_def)
  note inst = cleanup_order_amended [OF run_env_release, folded t, unfolded n]
  have order: "destructionOrder (cleanup env_release 2) =
       [TheCommandPool, Framebuffers, ThePipeline, ThePipelineLayout, TheRenderPass,
        ImageViews, TheSwapchain, TheLogicalDevice, TheSurface, TheInstance, TheWindow,
        WindowingLibraryState]"
    using inst off by simp
  have reverse: "destructionOrder (cleanup env_release 2)
       = rev (creationOrder (fst (startup env_release)))"
    using inst off by blast
  have destroyed: "precedes (Destroy Pipeline) (Destroy LogicalDevice) (fst (run 3 env_release))"
    using inst created by blast
  have rest: "precedes (Destroy LogicalDevice) (Destroy Instance) (fst (run 3 env_release))"
    "precedes (Destroy Swapchain) (Destroy Surface) (fst (run 3 env_release))"
    "precedes (Destroy Surface) (Destroy Instance) (fst (run 3 env_release))"
    using inst by blast+
  from run_env_release off order reverse created destroyed rest show ?thesis
    unfolding n by blast
qed

end
